theory Spec2Isabelle
  imports Main
begin

section \<open>Python values, exceptions and classes\<close>

text \<open>
  The exceptions of Python that the module can raise, each with its message.
  \<open>TypeError\<close> is the one that the interpreter raises when a call gives an argument
  twice; its text names the callable and depends on the interpreter, so it is left out.
  \<open>ReferenceError\<close> is Python's builtin of that name; the module itself never
  raises it.
\<close>

datatype error =
    RuntimeError string
  | IndexError string
  | ValueError string
  | TypeError
  | AttributeError string
  | ReferenceError string

datatype pyval = PyInt int | PyStr string | PyBool bool

text \<open>
  A class object of the \<open>Node\<close> hierarchy: its identity (Python compares classes by
  identity), its \<open>__name__\<close>, the class attributes \<open>_NODETYPE\<close> and
  \<open>DEFAULT_NAME\<close>, and whether it derives from \<open>System\<close> (which decides the
  \<open>create\<close> that a class method call dispatches to).
\<close>

record pyclass =
  cls_id :: nat
  cls_name :: string
  cls_NODETYPE :: string
  cls_DEFAULT_NAME :: string
  cls_is_system :: bool

definition SYSTEM_TYPE_ATTR_NAME :: string where
  "SYSTEM_TYPE_ATTR_NAME = ''system_type''"

definition Node :: pyclass where
  "Node = \<lparr>cls_id = 0, cls_name = ''Node'', cls_NODETYPE = ''transform'',
            cls_DEFAULT_NAME = ''grp'', cls_is_system = False\<rparr>"

definition System :: pyclass where
  "System = \<lparr>cls_id = 1, cls_name = ''System'', cls_NODETYPE = ''transform'',
              cls_DEFAULT_NAME = ''grp'', cls_is_system = True\<rparr>"

text \<open>
  A class together with the classes that \<open>cls.__subclasses__()\<close> returns for it, and
  so on downwards: the loaded hierarchy under a class. Python's class graph is finite
  and acyclic, so the hierarchy is a finite tree (a class that is reached along two
  paths occurs twice).
\<close>

datatype ctree = CTree pyclass "ctree list"




section \<open>The scene graph service\<close>

text \<open>
  Modelled from the spec: the external scene graph service (\<open>cmds\<close> and \<open>om\<close> of the
  host application) and the helpers \<open>name_to_node\<close> and \<open>KeepSel\<close> of the package's
  \<open>__init__\<close> are not part of the source file. The scene is what section 6 of the
  specification lists: nodes with a persistent identifier, a name, a type and string
  attributes; the namespaces; the selection; and the files written by an export.
  An \<open>MObject\<close> is a handle into the node store; a handle whose node was deleted
  stays a value but is no longer in the store.
\<close>

type_synonym mobject = nat

record mnode =
  nd_uuid :: string
  nd_name :: string
  nd_type :: string
  nd_dag :: bool
  nd_parent :: "mobject option"
  nd_attrs :: "string \<rightharpoonup> string"

record scene =
  sc_nodes :: "(mobject \<times> mnode) list"
  sc_namespaces :: "string list"
  sc_selection :: "mobject list"
  sc_files :: "(string \<times> (string \<rightharpoonup> pyval) \<times> mobject list) list"
  sc_dag_types :: "string list"

text \<open>
  A call that only reads the scene returns \<open>error + 'a\<close>; a call that changes it
  returns the outcome and the scene it leaves behind, also when it raises.
\<close>

type_synonym 'a action = "scene \<Rightarrow> (error + 'a) \<times> scene"

definition ebind :: "error + 'a \<Rightarrow> ('a \<Rightarrow> error + 'b) \<Rightarrow> error + 'b" where
  "ebind r f = (case r of Inl e \<Rightarrow> Inl e | Inr x \<Rightarrow> f x)"

definition ret :: "'a \<Rightarrow> 'a action" where
  "ret x sc = (Inr x, sc)"

definition raise :: "error \<Rightarrow> 'a action" where
  "raise e sc = (Inl e, sc)"

definition rd :: "(scene \<Rightarrow> error + 'a) \<Rightarrow> 'a action" where
  "rd g sc = (g sc, sc)"

definition bnd :: "'a action \<Rightarrow> ('a \<Rightarrow> 'b action) \<Rightarrow> 'b action" where
  "bnd m f sc = (case m sc of (Inl e, sc') \<Rightarrow> (Inl e, sc') | (Inr x, sc') \<Rightarrow> f x sc')"

subsection \<open>Names and namespaces\<close>

definition sep :: char where
  "sep = CHR '':''"

text \<open>Python's \<open>s.rsplit(':', 1)\<close> when the separator occurs in \<open>s\<close>.\<close>

definition rsplit1 :: "string \<Rightarrow> (string \<times> string) option" where
  "rsplit1 s =
     (if sep \<in> set s
      then Some (rev (tl (dropWhile (\<lambda>c. c \<noteq> sep) (rev s))),
                 rev (takeWhile (\<lambda>c. c \<noteq> sep) (rev s)))
      else None)"

text \<open>The namespace prefix of a name, empty if there is none.\<close>

definition ns_of :: "string \<Rightarrow> string" where
  "ns_of name = (case rsplit1 name of None \<Rightarrow> [] | Some (b, a) \<Rightarrow> b)"

definition base_of :: "string \<Rightarrow> string" where
  "base_of name = (case rsplit1 name of None \<Rightarrow> name | Some (b, a) \<Rightarrow> a)"

subsection \<open>The object model API\<close>

definition dead_msg :: string where
  "dead_msg = ''(kFailure): Object does not exist''"

definition om_node :: "scene \<Rightarrow> mobject \<Rightarrow> error + mnode" where
  "om_node sc m =
     (case map_of (sc_nodes sc) m of
        None \<Rightarrow> Inl (RuntimeError dead_msg)
      | Some nd \<Rightarrow> Inr nd)"

text \<open>\<open>om.MObjectHandle(m).isValid()\<close>: the liveness check of the service.\<close>

definition om_isValid :: "scene \<Rightarrow> mobject \<Rightarrow> bool" where
  "om_isValid sc m = (map_of (sc_nodes sc) m \<noteq> None)"

datatype fnset = MFnDagNode mobject | MFnDependencyNode mobject

fun fn_object :: "fnset \<Rightarrow> mobject" where
  "fn_object (MFnDagNode m) = m"
| "fn_object (MFnDependencyNode m) = m"

fun is_MFnDagNode :: "fnset \<Rightarrow> bool" where
  "is_MFnDagNode (MFnDagNode m) = True"
| "is_MFnDagNode (MFnDependencyNode m) = False"

text \<open>\<open>om.MFnDagNode().hasObj(m)\<close>: whether the object is a node of the hierarchy.\<close>

definition om_hasObj :: "scene \<Rightarrow> mobject \<Rightarrow> bool" where
  "om_hasObj sc m = (case map_of (sc_nodes sc) m of None \<Rightarrow> False | Some nd \<Rightarrow> nd_dag nd)"

text \<open>Attaching a function set to an object fails on an object that does not exist.\<close>

definition om_setObject :: "(mobject \<Rightarrow> fnset) \<Rightarrow> scene \<Rightarrow> mobject \<Rightarrow> error + fnset" where
  "om_setObject mk sc m = ebind (om_node sc m) (\<lambda>nd. Inr (mk m))"

definition om_uuid :: "scene \<Rightarrow> fnset \<Rightarrow> error + string" where
  "om_uuid sc fn = ebind (om_node sc (fn_object fn)) (\<lambda>nd. Inr (nd_uuid nd))"

definition om_name :: "scene \<Rightarrow> fnset \<Rightarrow> error + string" where
  "om_name sc fn = ebind (om_node sc (fn_object fn)) (\<lambda>nd. Inr (nd_name nd))"

definition om_partialPathName :: "scene \<Rightarrow> fnset \<Rightarrow> error + string" where
  "om_partialPathName sc fn = ebind (om_node sc (fn_object fn)) (\<lambda>nd. Inr (nd_name nd))"

definition om_namespace :: "scene \<Rightarrow> fnset \<Rightarrow> error + string" where
  "om_namespace sc fn = ebind (om_node sc (fn_object fn)) (\<lambda>nd. Inr (ns_of (nd_name nd)))"

definition om_hasAttribute :: "scene \<Rightarrow> fnset \<Rightarrow> string \<Rightarrow> error + bool" where
  "om_hasAttribute sc fn a =
     ebind (om_node sc (fn_object fn)) (\<lambda>nd. Inr (nd_attrs nd a \<noteq> None))"

text \<open>\<open>fn.findPlug(a, True).asString()\<close>.\<close>

definition om_findPlug_asString :: "scene \<Rightarrow> fnset \<Rightarrow> string \<Rightarrow> error + string" where
  "om_findPlug_asString sc fn a =
     ebind (om_node sc (fn_object fn))
       (\<lambda>nd. case nd_attrs nd a of
                None \<Rightarrow> Inl (RuntimeError ''(kInvalidParameter): Cannot find item of required type'')
              | Some v \<Rightarrow> Inr v)"

text \<open>
  Modelled from the spec: \<open>name_to_node\<close> is \<open>resolve(name_or_id)\<close> of section 6,
  from a name or an identity to the live object, or \<open>None\<close>.
\<close>

definition name_to_node :: "scene \<Rightarrow> string \<Rightarrow> mobject option" where
  "name_to_node sc s =
     map_option fst (find (\<lambda>(m, nd). nd_name nd = s \<or> nd_uuid nd = s) (sc_nodes sc))"

subsection \<open>The command layer\<close>

text \<open>
  Modelled from the spec: the commands address a node by its name. Names and
  identities are issued fresh, a clash of names being resolved by an index at the
  end; an operation that would leave two nodes with one name fails.
\<close>

definition no_object :: "string \<Rightarrow> error" where
  "no_object name = ValueError (''No object matches name: '' @ name)"

definition obj_of_name :: "scene \<Rightarrow> string \<Rightarrow> mobject option" where
  "obj_of_name sc name =
     map_option fst (find (\<lambda>(m, nd). nd_name nd = name) (sc_nodes sc))"

definition update_node :: "mobject \<Rightarrow> (mnode \<Rightarrow> mnode) \<Rightarrow> scene \<Rightarrow> scene" where
  "update_node m g sc =
     sc\<lparr>sc_nodes := map (\<lambda>(m', nd). if m' = m then (m', g nd) else (m', nd)) (sc_nodes sc)\<rparr>"

definition rename_nodes :: "(string \<Rightarrow> string) \<Rightarrow> scene \<Rightarrow> scene" where
  "rename_nodes g sc =
     sc\<lparr>sc_nodes := map (\<lambda>(m, nd). (m, nd\<lparr>nd_name := g (nd_name nd)\<rparr>)) (sc_nodes sc)\<rparr>"

definition node_names :: "scene \<Rightarrow> string list" where
  "node_names sc = map (\<lambda>(m, nd). nd_name nd) (sc_nodes sc)"

definition node_uuids :: "scene \<Rightarrow> string list" where
  "node_uuids sc = map (\<lambda>(m, nd). nd_uuid nd) (sc_nodes sc)"

fun digits :: "nat \<Rightarrow> string" where
  "digits n =
     (if n < 10 then [char_of (48 + n)]
      else digits (n div 10) @ [char_of (48 + n mod 10)])"

declare digits.simps [simp del]

definition fresh_string :: "string list \<Rightarrow> string \<Rightarrow> string" where
  "fresh_string used base =
     (if base \<notin> set used then base
      else case find (\<lambda>c. c \<notin> set used)
                  (map (\<lambda>k. base @ digits k) [1 ..< length used + 2]) of
             Some c \<Rightarrow> c
           | None \<Rightarrow> base)"

definition fresh_handle :: "scene \<Rightarrow> mobject" where
  "fresh_handle sc = Suc (fold max (map fst (sc_nodes sc)) 0)"

definition add_ns :: "string \<Rightarrow> string list \<Rightarrow> string list" where
  "add_ns ns nss = (if ns = [] \<or> ns \<in> set nss then nss else ns # nss)"

text \<open>\<open>cmds.ls(x)\<close>: the names of the nodes that a name or an identity matches.\<close>

definition cmds_ls :: "string \<Rightarrow> scene \<Rightarrow> string list" where
  "cmds_ls x sc =
     map (\<lambda>(m, nd). nd_name nd)
       (filter (\<lambda>(m, nd). nd_name nd = x \<or> nd_uuid nd = x) (sc_nodes sc))"

text \<open>
  \<open>cmds.createNode(ty, name=name, parent=parent, ss=1)\<close>: the new node gets a fresh
  handle, a fresh identity and the name asked for, with an index when it is taken;
  the namespace of the name comes into being; the selection is untouched (\<open>ss\<close>).
  The name of the new node is returned.
\<close>

definition new_uuid :: "scene \<Rightarrow> string" where
  "new_uuid sc = fresh_string (node_names sc @ node_uuids sc) ''uuid''"

definition new_name :: "scene \<Rightarrow> string \<Rightarrow> string" where
  "new_name sc name = fresh_string (new_uuid sc # node_names sc @ node_uuids sc) name"

definition cmds_createNode :: "string \<Rightarrow> string \<Rightarrow> string option \<Rightarrow> string action" where
  "cmds_createNode ty name parent sc =
     (if parent \<noteq> None \<and> obj_of_name sc (the parent) = None
      then (Inl (no_object (the parent)), sc)
      else
        let m = fresh_handle sc;
            u = new_uuid sc;
            name' = new_name sc name;
            nd = \<lparr>nd_uuid = u, nd_name = name', nd_type = ty,
                  nd_dag = (ty \<in> set (sc_dag_types sc)),
                  nd_parent = (case parent of None \<Rightarrow> None | Some p \<Rightarrow> obj_of_name sc p),
                  nd_attrs = Map.empty\<rparr>
        in (Inr name',
            sc\<lparr>sc_nodes := (m, nd) # sc_nodes sc,
               sc_namespaces := add_ns (ns_of name') (sc_namespaces sc)\<rparr>))"

text \<open>\<open>cmds.rename(old, new)\<close> returns the name the node ends up with.\<close>

definition cmds_rename :: "string \<Rightarrow> string \<Rightarrow> string action" where
  "cmds_rename old new sc =
     (case obj_of_name sc old of
        None \<Rightarrow> (Inl (no_object old), sc)
      | Some m \<Rightarrow>
          if new = [] then (Inl (RuntimeError ''New name has no legal characters''), sc)
          else
            let others = filter (\<lambda>(m', nd). m' \<noteq> m) (sc_nodes sc);
                new' = fresh_string (map (\<lambda>(m', nd). nd_name nd) others @ node_uuids sc) new;
                sc' = update_node m (\<lambda>nd. nd\<lparr>nd_name := new'\<rparr>) sc
            in (Inr new', sc'\<lparr>sc_namespaces := add_ns (ns_of new') (sc_namespaces sc')\<rparr>))"

text \<open>\<open>cmds.delete(name)\<close> takes the node out of the store and out of the selection.\<close>

definition cmds_delete :: "string \<Rightarrow> unit action" where
  "cmds_delete name sc =
     (case obj_of_name sc name of
        None \<Rightarrow> (Inl (no_object name), sc)
      | Some m \<Rightarrow>
          (Inr (),
           sc\<lparr>sc_nodes := filter (\<lambda>(m', nd). m' \<noteq> m) (sc_nodes sc),
              sc_selection := filter (\<lambda>m'. m' \<noteq> m) (sc_selection sc)\<rparr>))"

text \<open>\<open>cmds.select(name)\<close> replaces the selection.\<close>

definition cmds_select :: "string \<Rightarrow> unit action" where
  "cmds_select name sc =
     (case obj_of_name sc name of
        None \<Rightarrow> (Inl (no_object name), sc)
      | Some m \<Rightarrow> (Inr (), sc\<lparr>sc_selection := [m]\<rparr>))"

text \<open>
  \<open>cmds.file(filename, **options)\<close> with \<open>es\<close> among the options: the selection is
  written to the file; the scene records the file, the options and what was selected.
\<close>

definition cmds_file :: "string \<Rightarrow> (string \<rightharpoonup> pyval) \<Rightarrow> unit action" where
  "cmds_file filename options sc =
     (if sc_selection sc = [] then (Inl (RuntimeError ''Nothing is selected''), sc)
      else (Inr (), sc\<lparr>sc_files := sc_files sc @ [(filename, options, sc_selection sc)]\<rparr>))"

text \<open>Python's \<open>s.rsplit('.', 1)\<close> on a plug name \<open>node.attribute\<close>.\<close>

definition split_plug :: "string \<Rightarrow> (string \<times> string) option" where
  "split_plug s =
     (if CHR ''.'' \<in> set s
      then Some (rev (tl (dropWhile (\<lambda>c. c \<noteq> CHR ''.'') (rev s))),
                 rev (takeWhile (\<lambda>c. c \<noteq> CHR ''.'') (rev s)))
      else None)"

text \<open>\<open>cmds.attributeQuery(a, n=obj, ex=1)\<close>.\<close>

definition cmds_attributeQuery :: "string \<Rightarrow> string \<Rightarrow> scene \<Rightarrow> error + bool" where
  "cmds_attributeQuery a obj sc =
     (case obj_of_name sc obj of
        None \<Rightarrow> Inl (no_object obj)
      | Some m \<Rightarrow> ebind (om_node sc m) (\<lambda>nd. Inr (nd_attrs nd a \<noteq> None)))"

text \<open>\<open>cmds.addAttr(obj, ln=a, dt='string')\<close>.\<close>

definition cmds_addAttr :: "string \<Rightarrow> string \<Rightarrow> unit action" where
  "cmds_addAttr obj a sc =
     (case obj_of_name sc obj of
        None \<Rightarrow> (Inl (no_object obj), sc)
      | Some m \<Rightarrow>
          (case om_node sc m of
             Inl e \<Rightarrow> (Inl e, sc)
           | Inr nd \<Rightarrow>
               if nd_attrs nd a \<noteq> None
               then (Inl (RuntimeError ''Found an attribute of that name already''), sc)
               else (Inr (), update_node m (\<lambda>nd. nd\<lparr>nd_attrs := (nd_attrs nd)(a \<mapsto> [])\<rparr>) sc)))"

text \<open>\<open>cmds.setAttr(plug, value, type='string')\<close>.\<close>

definition cmds_setAttr :: "string \<Rightarrow> string \<Rightarrow> unit action" where
  "cmds_setAttr plug v sc =
     (case split_plug plug of
        None \<Rightarrow> (Inl (no_object plug), sc)
      | Some (obj, a) \<Rightarrow>
          (case obj_of_name sc obj of
             None \<Rightarrow> (Inl (no_object plug), sc)
           | Some m \<Rightarrow>
               (case om_node sc m of
                  Inl e \<Rightarrow> (Inl e, sc)
                | Inr nd \<Rightarrow>
                    if nd_attrs nd a = None then (Inl (no_object plug), sc)
                    else (Inr (), update_node m (\<lambda>nd. nd\<lparr>nd_attrs := (nd_attrs nd)(a \<mapsto> v)\<rparr>) sc))))"

text \<open>\<open>cmds.getAttr(plug)\<close>.\<close>

definition cmds_getAttr :: "string \<Rightarrow> scene \<Rightarrow> error + string" where
  "cmds_getAttr plug sc =
     (case split_plug plug of
        None \<Rightarrow> Inl (no_object plug)
      | Some (obj, a) \<Rightarrow>
          (case obj_of_name sc obj of
             None \<Rightarrow> Inl (no_object plug)
           | Some m \<Rightarrow>
               ebind (om_node sc m)
                 (\<lambda>nd. case nd_attrs nd a of None \<Rightarrow> Inl (no_object plug) | Some v \<Rightarrow> Inr v)))"

subsection \<open>Namespace commands\<close>

text \<open>
  A name lies under a namespace when it starts with the namespace and a separator;
  moving it replaces that prefix (by nothing, for the root).
\<close>

definition under :: "string \<Rightarrow> string \<Rightarrow> bool" where
  "under ns name = (take (Suc (length ns)) name = ns @ [sep])"

definition reprefix :: "string \<Rightarrow> string \<Rightarrow> string \<Rightarrow> string" where
  "reprefix src dst name =
     (if under src name
      then (if dst = [] then drop (Suc (length src)) name else dst @ drop (length src) name)
      else name)"

definition no_namespace :: "string \<Rightarrow> error" where
  "no_namespace ns = RuntimeError (''No namespace matches name: '' @ ns)"

definition name_clash :: error where
  "name_clash = RuntimeError ''Name clash''"

text \<open>\<open>cmds.namespace(ex=ns)\<close>.\<close>

definition cmds_namespace_ex :: "string \<Rightarrow> scene \<Rightarrow> bool" where
  "cmds_namespace_ex ns sc = (ns \<in> set (sc_namespaces sc))"

text \<open>\<open>cmds.namespace(add=ns)\<close>.\<close>

definition cmds_namespace_add :: "string \<Rightarrow> unit action" where
  "cmds_namespace_add ns sc =
     (if ns = [] \<or> ns \<in> set (sc_namespaces sc)
      then (Inl (RuntimeError ''Namespace already exists''), sc)
      else (Inr (), sc\<lparr>sc_namespaces := ns # sc_namespaces sc\<rparr>))"

text \<open>
  Moving what lies under \<open>src\<close> to \<open>dst\<close>: the nodes and the namespaces below
  \<open>src\<close> get the new prefix; it fails when a name would be taken twice.
\<close>

definition move_contents :: "string \<Rightarrow> string \<Rightarrow> scene \<Rightarrow> scene" where
  "move_contents src dst sc =
     (rename_nodes (reprefix src dst) sc)
       \<lparr>sc_namespaces := remdups (map (reprefix src dst) (sc_namespaces sc))\<rparr>"

definition checked_move :: "string \<Rightarrow> string \<Rightarrow> unit action" where
  "checked_move src dst sc =
     (let sc' = move_contents src dst sc
      in if distinct (node_names sc') then (Inr (), sc') else (Inl name_clash, sc))"

text \<open>\<open>cmds.namespace(mv=(src, dst))\<close>.\<close>

definition cmds_namespace_mv :: "string \<times> string \<Rightarrow> unit action" where
  "cmds_namespace_mv p sc =
     (case p of (src, dst) \<Rightarrow>
        if src \<notin> set (sc_namespaces sc) then (Inl (no_namespace src), sc)
        else if dst \<notin> set (sc_namespaces sc) then (Inl (no_namespace dst), sc)
        else checked_move src dst sc)"

text \<open>\<open>cmds.namespace(ren=(old, new))\<close>, with \<open>p=parent\<close> when a parent is given.\<close>

definition cmds_namespace_ren :: "string \<times> string \<Rightarrow> string option \<Rightarrow> unit action" where
  "cmds_namespace_ren p parent sc =
     (case p of (old, new) \<Rightarrow>
        let target = (case parent of None \<Rightarrow> new | Some par \<Rightarrow> par @ [sep] @ new) in
        if old \<notin> set (sc_namespaces sc) then (Inl (no_namespace old), sc)
        else if parent \<noteq> None \<and> the parent \<notin> set (sc_namespaces sc)
          then (Inl (no_namespace (the parent)), sc)
        else if new = [] \<or> target \<in> set (sc_namespaces sc)
          then (Inl (RuntimeError ''Namespace already exists''), sc)
        else
          bnd (checked_move old target)
            (\<lambda>_ sc'. (Inr (), sc'\<lparr>sc_namespaces :=
                 map (\<lambda>ns. if ns = old then target else ns) (sc_namespaces sc')\<rparr>)) sc)"

text \<open>
  \<open>cmds.namespace(rm=ns)\<close>, with \<open>mnr=1\<close> when \<open>merge\<close>: the namespace must be empty,
  unless its contents are merged into the root first.
\<close>

definition cmds_namespace_rm :: "string \<Rightarrow> bool \<Rightarrow> unit action" where
  "cmds_namespace_rm ns merge sc =
     (if ns \<notin> set (sc_namespaces sc) then (Inl (no_namespace ns), sc)
      else if merge then
        bnd (checked_move ns [])
          (\<lambda>_ sc'. (Inr (), sc'\<lparr>sc_namespaces := removeAll ns (sc_namespaces sc')\<rparr>)) sc
      else if (\<exists>n \<in> set (node_names sc @ sc_namespaces sc). under ns n)
        then (Inl (RuntimeError ''The namespace is not empty''), sc)
      else (Inr (), sc\<lparr>sc_namespaces := removeAll ns (sc_namespaces sc)\<rparr>))"

text \<open>\<open>cmds.namespaceInfo(ns, ls=1)\<close>: what lies directly in the namespace.\<close>

definition cmds_namespaceInfo :: "string \<Rightarrow> scene \<Rightarrow> error + string list" where
  "cmds_namespaceInfo ns sc =
     (if ns \<notin> set (sc_namespaces sc) then Inl (no_namespace ns)
      else Inr (filter (\<lambda>n. ns_of n = ns) (node_names sc @ sc_namespaces sc)))"

text \<open>
  Modelled from the spec: \<open>KeepSel\<close>, the scope that saves the selection before the
  decorated call and restores it after, on every exit path.
\<close>

definition KeepSel :: "'a action \<Rightarrow> 'a action" where
  "KeepSel body sc = (case body sc of (r, sc') \<Rightarrow> (r, sc'\<lparr>sc_selection := sc_selection sc\<rparr>))"

section \<open>Node\<close>

text \<open>
  An instance of \<open>Node\<close> or of a subclass: a \<open>str\<close> whose value is the identity, with
  its class and the two instance attributes \<open>dependnode\<close> and \<open>_fn\<close>.
\<close>

record node =
  node_cls :: pyclass
  node_str :: string
  dependnode :: mobject
  node_fn :: fnset

text \<open>
  What a caller passes where the source accepts \<open>str | om.MObject\<close>: a string (a name,
  an identity, or a \<open>Node\<close>, which is a \<open>str\<close>), or an object reference.
\<close>

datatype ref = Str string | Obj mobject

text \<open>
  The first two statements of \<open>Node.__new__\<close> and of \<open>Factory.get_system_class\<close>:
  a string goes through \<open>name_to_node\<close>, anything else is taken as it is; an object
  reference is always true in the test that follows.
\<close>

definition resolve :: "scene \<Rightarrow> ref \<Rightarrow> mobject option" where
  "resolve sc v = (case v of Str s \<Rightarrow> name_to_node sc s | Obj m \<Rightarrow> Some m)"

definition Node_new :: "pyclass \<Rightarrow> ref \<Rightarrow> scene \<Rightarrow> error + node option" where
  "Node_new cls v sc =
     (case resolve sc v of
        None \<Rightarrow> Inr None
      | Some m \<Rightarrow>
          ebind (if om_hasObj sc m then om_setObject MFnDagNode sc m
                 else om_setObject MFnDependencyNode sc m)
            (\<lambda>fn. ebind (om_uuid sc fn)
              (\<lambda>u. Inr (Some \<lparr>node_cls = cls, node_str = u, dependnode = m, node_fn = fn\<rparr>))))"

definition Node_eq :: "node \<Rightarrow> node \<Rightarrow> bool" where
  "Node_eq self other = (node_cls self = node_cls other \<and> node_str self = node_str other)"

text \<open>\<open>hash\<close> is Python's hash of a \<open>str\<close>, a parameter here.\<close>

definition Node_hash :: "(string \<Rightarrow> int) \<Rightarrow> node \<Rightarrow> int" where
  "Node_hash hash self = hash (node_str self)"

definition stale_msg :: "node \<Rightarrow> string" where
  "stale_msg self =
     ''Invalid depend node. '' @ cls_name (node_cls self) @ ''('' @ node_str self @ '') not found''"

definition Node_fn :: "node \<Rightarrow> scene \<Rightarrow> error + fnset" where
  "Node_fn self sc =
     (if om_isValid sc (dependnode self) then Inr (node_fn self)
      else Inl (RuntimeError (stale_msg self)))"

definition Node_get_name :: "node \<Rightarrow> scene \<Rightarrow> error + string" where
  "Node_get_name self sc =
     ebind (Node_fn self sc)
       (\<lambda>fn. if is_MFnDagNode fn then ebind (Node_fn self sc) (om_partialPathName sc)
             else ebind (Node_fn self sc) (om_name sc))"

definition Node_namespace :: "node \<Rightarrow> scene \<Rightarrow> error + string" where
  "Node_namespace self sc = ebind (Node_fn self sc) (om_namespace sc)"

definition Node_nodename :: "node \<Rightarrow> scene \<Rightarrow> error + string" where
  "Node_nodename self sc = ebind (Node_fn self sc) (om_name sc)"

definition Node_repr :: "node \<Rightarrow> scene \<Rightarrow> error + string" where
  "Node_repr self sc =
     ebind (Node_get_name self sc)
       (\<lambda>name. Inr (cls_name (node_cls self) @ ''('' @ [CHR 0x27] @ name @ [CHR 0x27] @ '')''))"

text \<open>The setter of \<open>namespace\<close>.\<close>

definition Node_namespace_setter :: "node \<Rightarrow> string \<Rightarrow> unit action" where
  "Node_namespace_setter self v =
     bnd (rd (Node_namespace self))
       (\<lambda>ns.
          if ns \<noteq> [] then
            (if v \<noteq> [] then
               bnd (rd (\<lambda>sc. Inr (cmds_namespace_ex v sc)))
                 (\<lambda>ex.
                    if ex then cmds_namespace_mv (ns, v)
                    else if sep \<in> set v then
                      (let par = ns_of v; v' = base_of v in
                       bnd (rd (\<lambda>sc. Inr (cmds_namespace_ex par sc)))
                         (\<lambda>exp.
                            bnd (if \<not> exp then cmds_namespace_add par else ret ())
                              (\<lambda>_. bnd (rd (Node_namespace self))
                                 (\<lambda>ns'. cmds_namespace_ren (ns', v') (Some par)))))
                    else
                      bnd (rd (Node_namespace self))
                        (\<lambda>ns'. cmds_namespace_ren (ns', v) None))
             else cmds_namespace_rm ns True)
          else ret ())"

text \<open>
  \<open>Node.rename\<close>, the setter of \<open>name\<close>. \<open>value[-1]\<close> raises on the empty string.
\<close>

definition Node_rename :: "node \<Rightarrow> string \<Rightarrow> unit action" where
  "Node_rename self v =
     bnd (rd (Node_get_name self))
       (\<lambda>name.
          bnd (if sep \<in> set name
               then (if sep \<in> set v then Node_namespace_setter self (ns_of v)
                     else Node_namespace_setter self [])
               else ret ())
            (\<lambda>_.
               if v = [] then raise (IndexError ''string index out of range'')
               else
                 (let v' = (if last v = sep then v @ cls_DEFAULT_NAME (node_cls self) else v) in
                  bnd (rd (Node_get_name self))
                    (\<lambda>name'. bnd (cmds_rename name' v') (\<lambda>_. ret ())))))"

text \<open>
  \<open>Node.create\<close>, a class method: \<open>name\<close> and \<open>parent\<close> are optional. The result is
  \<open>cls(root)\<close>, which is \<open>None\<close> when \<open>root\<close> resolves to nothing.
\<close>

definition Node_create :: "pyclass \<Rightarrow> string option \<Rightarrow> string option \<Rightarrow> node option action" where
  "Node_create cls name parent =
     bnd (case parent of
            None \<Rightarrow> ret None
          | Some p \<Rightarrow>
              (\<lambda>sc. case cmds_ls p sc of
                       [] \<Rightarrow> (Inl (IndexError ''list index out of range''), sc)
                     | x # xs \<Rightarrow> (Inr (Some x), sc)))
       (\<lambda>parent'.
          let name1 = (case name of
                         None \<Rightarrow> cls_NODETYPE cls
                       | Some s \<Rightarrow> if s = [] then cls_NODETYPE cls else s);
              name2 = (if name1 \<noteq> [] \<and> last name1 = sep
                       then name1 @ cls_DEFAULT_NAME cls else name1)
          in bnd (cmds_createNode (cls_NODETYPE cls) name2 parent')
               (\<lambda>root. rd (Node_new cls (Str root))))"

text \<open>
  \<open>Node.delete\<close>: the namespace and the representation are read first, then the
  node is deleted by name, and its namespace when nothing is left in it.
\<close>

definition Node_delete :: "node \<Rightarrow> unit action" where
  "Node_delete self =
     bnd (rd (Node_namespace self))
       (\<lambda>ns. bnd (rd (Node_repr self))
          (\<lambda>node_repr. bnd (rd (Node_get_name self))
             (\<lambda>name. bnd (cmds_delete name)
                (\<lambda>_. if ns \<noteq> []
                      then bnd (rd (cmds_namespaceInfo ns))
                             (\<lambda>l. if l = [] then cmds_namespace_rm ns False else ret ())
                      else ret ()))))"

text \<open>
  The body of \<open>Node.export\<close>. The call \<open>cmds.file(filename, es=True, **settings)\<close>
  is a \<open>TypeError\<close> of Python when \<open>settings\<close> has the key \<open>es\<close> itself.
\<close>

definition export_defaults :: "string \<rightharpoonup> pyval" where
  "export_defaults = [''pr'' \<mapsto> PyInt 1, ''typ'' \<mapsto> PyStr ''mayaAscii'']"

definition Node_export_body :: "node \<Rightarrow> string \<Rightarrow> (string \<rightharpoonup> pyval) \<Rightarrow> unit action" where
  "Node_export_body self filename kwargs =
     bnd (rd (Node_get_name self))
       (\<lambda>name. bnd (cmds_select name)
          (\<lambda>_. let settings = export_defaults ++ kwargs in
                bnd (if settings ''es'' \<noteq> None
                     then raise TypeError
                     else cmds_file filename (settings(''es'' \<mapsto> PyBool True)))
                  (\<lambda>_. bnd (rd (Node_repr self)) (\<lambda>r. ret ()))))"

text \<open>
  \<open>Node.export\<close> is \<open>def export(self, filename, **kwargs)\<close> under \<open>KeepSel\<close>. The
  call binds the arguments before the body runs: options that name \<open>self\<close> or
  \<open>filename\<close> give one of the two parameters twice, a \<open>TypeError\<close> of Python.
\<close>

definition Node_export :: "node \<Rightarrow> string \<Rightarrow> (string \<rightharpoonup> pyval) \<Rightarrow> unit action" where
  "Node_export self filename kwargs =
     KeepSel
       (if kwargs ''self'' \<noteq> None \<or> kwargs ''filename'' \<noteq> None
        then raise TypeError
        else Node_export_body self filename kwargs)"

text \<open>\<open>Node.serialize\<close>; the log line formats the representation of the node.\<close>

definition Node_serialize :: "node \<Rightarrow> scene \<Rightarrow> error + (string \<times> string) list" where
  "Node_serialize self sc =
     ebind (Node_repr self sc) (\<lambda>r. Inr [(''type'', cls_name (node_cls self))])"

section \<open>System\<close>

definition add_system_attr :: "string \<Rightarrow> string \<Rightarrow> unit action" where
  "add_system_attr obj v =
     bnd (rd (cmds_attributeQuery SYSTEM_TYPE_ATTR_NAME obj))
       (\<lambda>ex. bnd (if \<not> ex then cmds_addAttr obj SYSTEM_TYPE_ATTR_NAME else ret ())
          (\<lambda>_. cmds_setAttr (obj @ ''.'' @ SYSTEM_TYPE_ATTR_NAME) v))"

definition System_create_attributes :: "node \<Rightarrow> unit action" where
  "System_create_attributes self =
     bnd (rd (Node_get_name self))
       (\<lambda>name. add_system_attr name (cls_name (node_cls self)))"

text \<open>
  \<open>System.create\<close>: \<open>super().create(name, parent)\<close>, then \<open>create_attributes\<close> on the
  result, which is an \<open>AttributeError\<close> on \<open>None\<close>.
\<close>

definition System_create :: "pyclass \<Rightarrow> string option \<Rightarrow> string option \<Rightarrow> node option action" where
  "System_create cls name parent =
     bnd (Node_create cls name parent)
       (\<lambda>self. case self of
                  None \<Rightarrow> raise (AttributeError
                    ([CHR 0x27] @ ''NoneType'' @ [CHR 0x27] @ '' object has no attribute '' @
                     [CHR 0x27] @ ''create_attributes'' @ [CHR 0x27]))
                | Some s \<Rightarrow> bnd (System_create_attributes s) (\<lambda>_. ret (Some s)))"

text \<open>
  \<open>Node.deserialize\<close> calls \<open>cls.create\<close>, which is \<open>System.create\<close> for a class that
  derives from \<open>System\<close>.
\<close>

definition Node_deserialize :: "pyclass \<Rightarrow> string option \<Rightarrow> string option \<Rightarrow> node option action" where
  "Node_deserialize cls name parent =
     (if cls_is_system cls then System_create cls name parent else Node_create cls name parent)"

definition System_type :: "node \<Rightarrow> scene \<Rightarrow> error + string" where
  "System_type self sc =
     ebind (Node_get_name self sc)
       (\<lambda>name. cmds_getAttr (name @ ''.'' @ SYSTEM_TYPE_ATTR_NAME) sc)"

definition System_type_setter :: "node \<Rightarrow> string \<Rightarrow> unit action" where
  "System_type_setter self v =
     bnd (rd (Node_get_name self))
       (\<lambda>name. cmds_setAttr (name @ ''.'' @ SYSTEM_TYPE_ATTR_NAME) v)"

section \<open>Factory\<close>

text \<open>
  The factory is a \<open>dict\<close> from type names to classes. Its attribute \<open>fn\<close> is a
  function set that \<open>get_system_class\<close> points at the object before each use.
\<close>

type_synonym factory = "string \<rightharpoonup> pyclass"

definition dict_get :: "('k \<rightharpoonup> 'v) \<Rightarrow> 'k \<Rightarrow> 'v \<Rightarrow> 'v" where
  "dict_get d k dflt = (case d k of None \<Rightarrow> dflt | Some v \<Rightarrow> v)"

definition Factory_get_system_class :: "factory \<Rightarrow> ref \<Rightarrow> scene \<Rightarrow> error + pyclass option" where
  "Factory_get_system_class self obj sc =
     (case resolve sc obj of
        None \<Rightarrow> Inr None
      | Some m \<Rightarrow>
          ebind (om_setObject MFnDependencyNode sc m)
            (\<lambda>fn. ebind (om_hasAttribute sc fn SYSTEM_TYPE_ATTR_NAME)
              (\<lambda>has. if has
                      then ebind (om_findPlug_asString sc fn SYSTEM_TYPE_ATTR_NAME)
                             (\<lambda>tag. Inr (Some (dict_get self tag System)))
                      else Inr None)))"

definition Factory_get_system :: "factory \<Rightarrow> ref \<Rightarrow> scene \<Rightarrow> error + node option" where
  "Factory_get_system self obj sc =
     ebind (Factory_get_system_class self obj sc)
       (\<lambda>cls. case cls of None \<Rightarrow> Inr None | Some c \<Rightarrow> Node_new c obj sc)"

fun Factory_register :: "factory \<Rightarrow> ctree \<Rightarrow> factory" where
  "Factory_register self (CTree cls subs) =
     fold (\<lambda>x self'. Factory_register self' x) subs (self(cls_name cls \<mapsto> cls))"

definition Factory_init :: "ctree option \<Rightarrow> factory" where
  "Factory_init cls = (case cls of None \<Rightarrow> Map.empty | Some t \<Rightarrow> Factory_register Map.empty t)"

section \<open>Example classes and scenes\<close>

text \<open>
  The module ends with \<open>factory = Factory(System)\<close>; on import \<open>System\<close> has no
  subclass yet. \<open>Rig\<close> stands for a subclass that a client module defines.
\<close>

definition factory :: factory where
  "factory = Factory_init (Some (CTree System []))"

definition Rig :: pyclass where
  "Rig = \<lparr>cls_id = 2, cls_name = ''Rig'', cls_NODETYPE = ''joint'',
           cls_DEFAULT_NAME = ''rig'', cls_is_system = True\<rparr>"

definition rig_factory :: factory where
  "rig_factory = Factory_init (Some (CTree System [CTree Rig []]))"

definition empty_scene :: scene where
  "empty_scene = \<lparr>sc_nodes = [], sc_namespaces = [], sc_selection = [], sc_files = [],
                   sc_dag_types = [''transform'', ''joint'']\<rparr>"

definition transform_node :: "string \<Rightarrow> string \<Rightarrow> (string \<rightharpoonup> string) \<Rightarrow> mnode" where
  "transform_node u name attrs =
     \<lparr>nd_uuid = u, nd_name = name, nd_type = ''transform'', nd_dag = True,
      nd_parent = None, nd_attrs = attrs\<rparr>"

text \<open>
  A scene with a \<open>System\<close>, an untagged node, a node tagged with a name no class has,
  and a \<open>Rig\<close> in a namespace.
\<close>

definition example_scene :: scene where
  "example_scene =
     \<lparr>sc_nodes =
        [(1, transform_node ''u1'' ''duck'' [''system_type'' \<mapsto> ''System'']),
         (2, transform_node ''u2'' ''rock'' Map.empty),
         (3, transform_node ''u3'' ''egg'' [''system_type'' \<mapsto> ''Alien'']),
         (4, transform_node ''u4'' ''ns:arm'' [''system_type'' \<mapsto> ''Rig''])],
      sc_namespaces = [''ns''], sc_selection = [2], sc_files = [],
      sc_dag_types = [''transform'', ''joint'']\<rparr>"

definition duck :: node where
  "duck = \<lparr>node_cls = System, node_str = ''u1'', dependnode = 1, node_fn = MFnDagNode 1\<rparr>"

definition arm :: node where
  "arm = \<lparr>node_cls = Rig, node_str = ''u4'', dependnode = 4, node_fn = MFnDagNode 4\<rparr>"

text \<open>Scenario A of the specification: the node \<open>duck\<close> created in an empty scene.\<close>

definition created_duck :: node where
  "created_duck =
     \<lparr>node_cls = System, node_str = ''uuid'', dependnode = 1, node_fn = MFnDagNode 1\<rparr>"

definition duck_scene :: scene where
  "duck_scene =
     empty_scene\<lparr>sc_nodes :=
       [(1, transform_node ''uuid'' ''duck'' [''system_type'' \<mapsto> ''System''])]\<rparr>"



text \<open>
  An error of the service or of Python itself: any error but a \<open>RuntimeError\<close> whose
  message starts like the one \<open>Node.fn\<close> raises.
\<close>

fun foreign :: "error \<Rightarrow> bool" where
  "foreign (RuntimeError (c # s)) = (c \<noteq> CHR ''I'')"
| "foreign e = True"

text \<open>
  The name that \<open>create\<close> asks the service for: the node type when no name is
  given, and the name with the default suffix when it ends with the separator.
\<close>

definition requested_name :: "pyclass \<Rightarrow> string option \<Rightarrow> string" where
  "requested_name cls name =
     (let name1 = (case name of
                     None \<Rightarrow> cls_NODETYPE cls
                   | Some s \<Rightarrow> if s = [] then cls_NODETYPE cls else s)
      in if name1 \<noteq> [] \<and> last name1 = sep then name1 @ cls_DEFAULT_NAME cls else name1)"

text \<open>What a scene holds apart from the names of its nodes: the nodes with the names blanked.\<close>

definition ids :: "scene \<Rightarrow> (mobject \<times> mnode) list" where
  "ids sc = map (\<lambda>(m, nd). (m, nd\<lparr>nd_name := []\<rparr>)) (sc_nodes sc)"

section \<open>Resolution of references\<close>

lemma find_Some_mem: "find P xs = Some x \<Longrightarrow> x \<in> set xs \<and> P x"
  by (induction xs) (auto split: if_splits)

lemma name_to_node_live:
  assumes "name_to_node sc s = Some m"
  shows "om_isValid sc m"
proof -
  from assms obtain x
    where x: "find (\<lambda>(m, nd). nd_name nd = s \<or> nd_uuid nd = s) (sc_nodes sc) = Some x"
      and m: "fst x = m"
    by (auto simp: name_to_node_def)
  from x have "x \<in> set (sc_nodes sc)" by (simp add: find_Some_mem)
  with m have "m \<in> fst ` set (sc_nodes sc)" by force
  then show ?thesis by (simp add: om_isValid_def map_of_eq_None_iff)
qed

lemma om_isValid_node: "om_isValid sc m \<Longrightarrow> \<exists>nd. map_of (sc_nodes sc) m = Some nd"
  by (auto simp: om_isValid_def)

lemma get_system_class_at:
  "resolve sc obj = Some m \<Longrightarrow> map_of (sc_nodes sc) m = Some nd \<Longrightarrow>
   Factory_get_system_class self obj sc =
     Inr (case nd_attrs nd SYSTEM_TYPE_ATTR_NAME of None \<Rightarrow> None
          | Some tag \<Rightarrow> Some (case self tag of None \<Rightarrow> System | Some c \<Rightarrow> c))"
  by (simp add: Factory_get_system_class_def om_setObject_def om_node_def ebind_def
      om_hasAttribute_def om_findPlug_asString_def dict_get_def split: option.splits)

lemma get_system_class_none:
  "resolve sc obj = None \<Longrightarrow> Factory_get_system_class self obj sc = Inr None"
  by (simp add: Factory_get_system_class_def)

lemmas example_defs =
  example_scene_def transform_node_def empty_scene_def factory_def rig_factory_def
  Factory_init_def Rig_def System_def Node_def duck_def arm_def SYSTEM_TYPE_ATTR_NAME_def

lemmas resolve_defs = resolve_def name_to_node_def om_isValid_def

section \<open>Registration\<close>







section \<open>Construction and the namespace of a name\<close>

lemma namespace_of_name:
  "Node_get_name n sc = Inr name \<Longrightarrow> Node_namespace n sc = Inr (ns_of name)"
  by (auto simp: Node_get_name_def Node_namespace_def ebind_def om_partialPathName_def
      om_name_def om_namespace_def split: sum.splits if_splits)

lemma ns_of_no_sep: "sep \<notin> set name \<Longrightarrow> ns_of name = []"
  by (simp add: ns_of_def rsplit1_def)

lemma Node_new_none:
  "resolve sc v = None \<Longrightarrow> Node_new cls v sc = Inr None"
  by (simp add: Node_new_def)

lemma Node_new_live:
  "resolve sc v = Some m \<Longrightarrow> map_of (sc_nodes sc) m = Some nd \<Longrightarrow>
   Node_new cls v sc = Inr (Some \<lparr>node_cls = cls, node_str = nd_uuid nd, dependnode = m,
      node_fn = (if nd_dag nd then MFnDagNode m else MFnDependencyNode m)\<rparr>)"
  by (simp add: Node_new_def om_hasObj_def om_setObject_def om_node_def ebind_def om_uuid_def)

lemma Node_new_dead:
  "resolve sc v = Some m \<Longrightarrow> map_of (sc_nodes sc) m = None \<Longrightarrow>
   Node_new cls v sc = Inl (RuntimeError dead_msg)"
  by (simp add: Node_new_def om_hasObj_def om_setObject_def om_node_def ebind_def om_uuid_def)

section \<open>Stale references, deletion and export\<close>

lemma stale_fn:
  "\<not> om_isValid sc (dependnode n) \<Longrightarrow> Node_fn n sc = Inl (RuntimeError (stale_msg n))"
  by (simp add: Node_fn_def)

lemma foreign_not_stale: "foreign e \<Longrightarrow> e \<noteq> RuntimeError (stale_msg n)"
  by (auto simp: stale_msg_def)

lemma foreign_dead: "foreign (RuntimeError dead_msg)"
  by (simp add: dead_msg_def)

lemma om_node_foreign: "om_node sc m = Inl e \<Longrightarrow> foreign e"
  by (auto simp: om_node_def dead_msg_def split: option.splits)

lemma live_get_name: "om_isValid sc (dependnode n) \<Longrightarrow> Node_get_name n sc = Inl e \<Longrightarrow> foreign e"
  by (auto simp: Node_get_name_def Node_fn_def ebind_def om_partialPathName_def om_name_def
      dest: om_node_foreign split: if_splits sum.splits)

lemma live_namespace: "om_isValid sc (dependnode n) \<Longrightarrow> Node_namespace n sc = Inl e \<Longrightarrow> foreign e"
  by (auto simp: Node_namespace_def Node_fn_def ebind_def om_namespace_def
      dest: om_node_foreign split: if_splits sum.splits)

lemma live_nodename: "om_isValid sc (dependnode n) \<Longrightarrow> Node_nodename n sc = Inl e \<Longrightarrow> foreign e"
  by (auto simp: Node_nodename_def Node_fn_def ebind_def om_name_def
      dest: om_node_foreign split: if_splits sum.splits)

lemma live_repr: "om_isValid sc (dependnode n) \<Longrightarrow> Node_repr n sc = Inl e \<Longrightarrow> foreign e"
  by (auto simp: Node_repr_def ebind_def dest: live_get_name split: sum.splits)

lemma getAttr_foreign: "cmds_getAttr plug sc = Inl e \<Longrightarrow> foreign e"
  by (auto simp: cmds_getAttr_def no_object_def ebind_def dest: om_node_foreign
      split: option.splits sum.splits prod.splits)

lemma live_type: "om_isValid sc (dependnode n) \<Longrightarrow> System_type n sc = Inl e \<Longrightarrow> foreign e"
  by (auto simp: System_type_def ebind_def dest: live_get_name getAttr_foreign split: sum.splits)

lemma delete_foreign: "cmds_delete name sc = (Inl e, sc') \<Longrightarrow> foreign e"
  by (auto simp: cmds_delete_def no_object_def split: option.splits)

lemma select_foreign: "cmds_select name sc = (Inl e, sc') \<Longrightarrow> foreign e"
  by (auto simp: cmds_select_def no_object_def split: option.splits)

lemma file_foreign: "cmds_file p opts sc = (Inl e, sc') \<Longrightarrow> foreign e"
  by (auto simp: cmds_file_def split: if_splits)

lemma namespaceInfo_foreign: "cmds_namespaceInfo ns sc = Inl e \<Longrightarrow> foreign e"
  by (auto simp: cmds_namespaceInfo_def no_namespace_def split: if_splits)

lemma checked_move_foreign: "checked_move a b sc = (Inl e, sc') \<Longrightarrow> foreign e"
  by (auto simp: checked_move_def name_clash_def Let_def split: if_splits)

lemma namespace_rm_foreign: "cmds_namespace_rm ns mg sc = (Inl e, sc') \<Longrightarrow> foreign e"
  by (auto simp: cmds_namespace_rm_def no_namespace_def bnd_def
      dest: checked_move_foreign split: if_splits prod.splits sum.splits)

lemma select_nodes: "cmds_select name sc = (r, sc') \<Longrightarrow> sc_nodes sc' = sc_nodes sc"
  by (auto simp: cmds_select_def split: option.splits)

lemma file_nodes: "cmds_file p opts sc = (r, sc') \<Longrightarrow> sc_nodes sc' = sc_nodes sc"
  by (auto simp: cmds_file_def split: if_splits)

lemma isValid_nodes: "sc_nodes sc' = sc_nodes sc \<Longrightarrow> om_isValid sc' m = om_isValid sc m"
  by (simp add: om_isValid_def)

lemma fn_nodes: "sc_nodes sc' = sc_nodes sc \<Longrightarrow> Node_fn n sc' = Node_fn n sc"
  by (simp add: Node_fn_def om_isValid_def)

lemma om_name_nodes: "sc_nodes sc' = sc_nodes sc \<Longrightarrow> om_name sc' = om_name sc"
  by (simp add: om_name_def om_node_def fun_eq_iff)

lemma om_ppn_nodes:
  "sc_nodes sc' = sc_nodes sc \<Longrightarrow> om_partialPathName sc' = om_partialPathName sc"
  by (simp add: om_partialPathName_def om_node_def fun_eq_iff)

lemma get_name_nodes:
  assumes "sc_nodes sc' = sc_nodes sc"
  shows "Node_get_name n sc' = Node_get_name n sc"
  by (simp add: Node_get_name_def fn_nodes[OF assms] om_name_nodes[OF assms]
      om_ppn_nodes[OF assms] cong: if_cong)

lemma repr_nodes:
  assumes "sc_nodes sc' = sc_nodes sc"
  shows "Node_repr n sc' = Node_repr n sc"
  by (simp add: Node_repr_def get_name_nodes[OF assms])

lemma bnd_Inl:
  assumes "bnd m f sc = (Inl e, s)"
  obtains s' where "m sc = (Inl e, s')"
  | x s' where "m sc = (Inr x, s')" "f x s' = (Inl e, s)"
  using assms by (auto simp: bnd_def split: prod.splits sum.splits)

lemma rd_Inl: "rd g sc = (Inl e, s) \<Longrightarrow> g sc = Inl e"
  by (auto simp: rd_def)

lemma rd_Inr: "rd g sc = (Inr x, s) \<Longrightarrow> s = sc"
  by (simp add: rd_def)

lemma live_delete:
  assumes "om_isValid sc (dependnode n)" "Node_delete n sc = (Inl e, s)"
  shows "foreign e"
  using assms(2) unfolding Node_delete_def
  apply (auto elim!: bnd_Inl dest!: rd_Inl dest: live_namespace[OF assms(1)] live_repr[OF assms(1)]
      live_get_name[OF assms(1)] delete_foreign
      simp: rd_def ret_def split: if_splits)
   apply (erule namespaceInfo_foreign)
  apply (erule namespace_rm_foreign)
  done

lemma live_export_body:
  assumes "om_isValid sc (dependnode n)" "Node_export_body n p kw sc = (Inl e, s)"
  shows "foreign e"
proof -
  from assms(2) have b: "bnd (rd (Node_get_name n))
          (\<lambda>name. bnd (cmds_select name)
             (\<lambda>_. let settings = export_defaults ++ kw in
                   bnd (if settings ''es'' \<noteq> None
                        then raise TypeError
                        else cmds_file p (settings(''es'' \<mapsto> PyBool True)))
                     (\<lambda>_. bnd (rd (Node_repr n)) (\<lambda>r. ret ())))) sc = (Inl e, s)"
    by (simp add: Node_export_body_def)
  from b show ?thesis
  proof (cases rule: bnd_Inl)
    case (1 s1)
    then show ?thesis using live_get_name[OF assms(1)] by (auto dest!: rd_Inl)
  next
    case (2 name s1)
    then have s1: "s1 = sc" by (auto dest: rd_Inr)
    from 2(2) show ?thesis
    proof (cases rule: bnd_Inl)
      case (1 s2)
      then show ?thesis by (auto dest: select_foreign)
    next
      case (2 u s2)
      from 2(1) s1 have n2: "sc_nodes s2 = sc_nodes sc" by (auto dest: select_nodes)
      from 2(2) show ?thesis unfolding Let_def
      proof (cases rule: bnd_Inl)
        case (1 s3)
        then show ?thesis by (auto simp: raise_def dest: file_foreign split: if_splits)
      next
        case (2 w s3)
        then have n3: "sc_nodes s3 = sc_nodes sc"
          using n2 by (auto simp: raise_def dest: file_nodes split: if_splits)
        have v3: "om_isValid s3 (dependnode n)" using assms(1) isValid_nodes[OF n3] by simp
        from 2(2) show ?thesis
          by (auto elim!: bnd_Inl dest!: rd_Inl dest: live_repr[OF v3] simp: ret_def)
      qed
    qed
  qed
qed

lemma live_export:
  assumes "om_isValid sc (dependnode n)" "Node_export n p kw sc = (Inl e, s)"
  shows "foreign e"
proof (cases "kw ''self'' \<noteq> None \<or> kw ''filename'' \<noteq> None")
  case True
  with assms(2) have "e = TypeError"
    by (auto simp: Node_export_def KeepSel_def raise_def)
  then show ?thesis by simp
next
  case False
  with assms(2) obtain s' where "Node_export_body n p kw sc = (Inl e, s')"
    by (auto simp: Node_export_def KeepSel_def split: prod.splits)
  then show ?thesis by (rule live_export_body[OF assms(1)])
qed

lemma get_name_obj:
  assumes "Node_get_name n sc = Inr name"
  shows "\<exists>m. obj_of_name sc name = Some m"
proof -
  from assms obtain nd where nd: "map_of (sc_nodes sc) (fn_object (node_fn n)) = Some nd"
    and nm: "nd_name nd = name"
    by (auto simp: Node_get_name_def Node_fn_def ebind_def om_partialPathName_def om_name_def
        om_node_def split: if_splits option.splits)
  from nd have "(fn_object (node_fn n), nd) \<in> set (sc_nodes sc)" by (rule map_of_SomeD)
  with nm have "find (\<lambda>(m, nd). nd_name nd = name) (sc_nodes sc) \<noteq> None"
    by (auto simp: find_None_iff)
  then show ?thesis by (auto simp: obj_of_name_def)
qed

lemma export_live:
  assumes "Node_get_name n sc = Inr name" "kw ''es'' = None" "obj_of_name sc name = Some m"
    and own: "kw ''self'' = None" "kw ''filename'' = None"
  shows "Node_export n p kw sc =
    (Inr (), sc\<lparr>sc_files := sc_files sc @
        [(p, (export_defaults ++ kw)(''es'' \<mapsto> PyBool True), [m])]\<rparr>)"
proof -
  let ?opts = "(export_defaults ++ kw)(''es'' \<mapsto> PyBool True)"
  let ?s1 = "sc\<lparr>sc_selection := [m]\<rparr>"
  let ?s2 = "?s1\<lparr>sc_files := sc_files ?s1 @ [(p, ?opts, sc_selection ?s1)]\<rparr>"
  have es: "(export_defaults ++ kw) ''es'' = None"
    using assms(2) by (simp add: export_defaults_def map_add_def)
  obtain x where x: "Node_repr n sc = Inr x"
    using assms(1) by (simp add: Node_repr_def ebind_def)
  have r: "Node_repr n ?s2 = Inr x"
    using repr_nodes[of ?s2 sc n] x by simp
  have a: "rd (Node_get_name n) sc = (Inr name, sc)" using assms(1) by (simp add: rd_def)
  have b: "cmds_select name sc = (Inr (), ?s1)" using assms(3) by (simp add: cmds_select_def)
  have c: "cmds_file p ?opts ?s1 = (Inr (), ?s2)" by (simp add: cmds_file_def)
  have d: "bnd (rd (Node_repr n)) (\<lambda>r. ret ()) ?s2 = (Inr (), ?s2)"
    using r by (simp add: bnd_def rd_def ret_def)
  have "bnd (rd (Node_get_name n))
          (\<lambda>name. bnd (cmds_select name)
             (\<lambda>_. let settings = export_defaults ++ kw in
                   bnd (if settings ''es'' \<noteq> None
                        then raise TypeError
                        else cmds_file p (settings(''es'' \<mapsto> PyBool True)))
                     (\<lambda>_. bnd (rd (Node_repr n)) (\<lambda>r. ret ())))) sc = (Inr (), ?s2)"
    unfolding bnd_def[of "rd (Node_get_name n)"] a
    apply (simp only: prod.case sum.case)
    unfolding bnd_def[of "cmds_select name"] b
    apply (simp only: prod.case sum.case Let_def es if_False simp_thms)
    unfolding bnd_def[of "cmds_file p ?opts"] c
    apply (simp only: prod.case sum.case d)
    done
  then have "Node_export_body n p kw sc = (Inr (), ?s2)"
    by (simp add: Node_export_body_def)
  then show ?thesis
    using own by (simp add: Node_export_def KeepSel_def)
qed

lemma export_own_parameter:
  assumes "kw ''self'' \<noteq> None \<or> kw ''filename'' \<noteq> None"
  shows "Node_export n p kw sc = (Inl TypeError, sc)"
  using assms by (auto simp: Node_export_def KeepSel_def raise_def)

lemma export_selection:
  "sc_selection (snd (Node_export n p kw sc)) = sc_selection sc"
  by (simp add: Node_export_def KeepSel_def split: prod.splits)

lemma bnd_Inr:
  assumes "bnd m f sc = (Inr y, s)"
  obtains x s' where "m sc = (Inr x, s')" "f x s' = (Inr y, s)"
  using assms by (auto simp: bnd_def split: prod.splits sum.splits)

lemma namespace_rm_nodes:
  "cmds_namespace_rm ns False sc = (r, sc') \<Longrightarrow> sc_nodes sc' = sc_nodes sc"
  by (auto simp: cmds_namespace_rm_def split: if_splits)

lemma delete_removes:
  "cmds_delete name sc = (Inr u, sc') \<Longrightarrow> obj_of_name sc name = Some m \<Longrightarrow>
   map_of (sc_nodes sc') m = None"
  by (auto simp: cmds_delete_def map_of_eq_None_iff)

lemma name_unique:
  assumes d: "distinct (node_names sc)"
    and a: "map_of (sc_nodes sc) h = Some nd"
    and b: "obj_of_name sc (nd_name nd) = Some m"
  shows "m = h"
proof -
  from a have ha: "(h, nd) \<in> set (sc_nodes sc)" by (rule map_of_SomeD)
  from b obtain x where x: "find (\<lambda>(m, nd'). nd_name nd' = nd_name nd) (sc_nodes sc) = Some x"
    and m: "fst x = m"
    by (auto simp: obj_of_name_def)
  from x have xs: "x \<in> set (sc_nodes sc)" and xn: "nd_name (snd x) = nd_name nd"
    using find_Some_mem[OF x] by (auto split: prod.splits)
  from d have "inj_on (\<lambda>(m, nd). nd_name nd) (set (sc_nodes sc))"
    by (simp add: node_names_def distinct_map)
  from inj_onD[OF this _ xs ha] xn have "x = (h, nd)" by (cases x) auto
  with m show ?thesis by simp
qed

lemma get_name_node:
  assumes "Node_get_name n sc = Inr name"
  shows "\<exists>nd. map_of (sc_nodes sc) (fn_object (node_fn n)) = Some nd \<and> nd_name nd = name"
  using assms
  by (auto simp: Node_get_name_def Node_fn_def ebind_def om_partialPathName_def om_name_def
      om_node_def split: if_splits option.splits)

lemma delete_kills:
  assumes d: "distinct (node_names sc)" and w: "fn_object (node_fn n) = dependnode n"
    and ok: "fst (Node_delete n sc) = Inr ()"
  shows "\<not> om_isValid (snd (Node_delete n sc)) (dependnode n)"
proof -
  obtain s where s: "Node_delete n sc = (Inr (), s)"
    using ok by (cases "Node_delete n sc") auto
  from s[unfolded Node_delete_def] obtain ns s1 where
    1: "rd (Node_namespace n) sc = (Inr ns, s1)" and
    r1: "bnd (rd (Node_repr n))
          (\<lambda>node_repr. bnd (rd (Node_get_name n))
             (\<lambda>name. bnd (cmds_delete name)
                (\<lambda>_. if ns \<noteq> []
                      then bnd (rd (cmds_namespaceInfo ns))
                             (\<lambda>l. if l = [] then cmds_namespace_rm ns False else ret ())
                      else ret ()))) s1 = (Inr (), s)"
    by (rule bnd_Inr)
  from 1 have s1: "s1 = sc" by (auto dest: rd_Inr)
  from r1 obtain rp s2 where
    2: "rd (Node_repr n) s1 = (Inr rp, s2)" and
    r2: "bnd (rd (Node_get_name n))
             (\<lambda>name. bnd (cmds_delete name)
                (\<lambda>_. if ns \<noteq> []
                      then bnd (rd (cmds_namespaceInfo ns))
                             (\<lambda>l. if l = [] then cmds_namespace_rm ns False else ret ())
                      else ret ())) s2 = (Inr (), s)"
    by (rule bnd_Inr)
  from 2 s1 have s2: "s2 = sc" by (auto dest: rd_Inr)
  from r2 obtain name s3 where
    3: "rd (Node_get_name n) s2 = (Inr name, s3)" and
    r3: "bnd (cmds_delete name)
                (\<lambda>_. if ns \<noteq> []
                      then bnd (rd (cmds_namespaceInfo ns))
                             (\<lambda>l. if l = [] then cmds_namespace_rm ns False else ret ())
                      else ret ()) s3 = (Inr (), s)"
    by (rule bnd_Inr)
  from 3 s2 have s3: "s3 = sc" and nm: "Node_get_name n sc = Inr name"
    by (auto simp: rd_def)
  from r3 obtain u s4 where
    4: "cmds_delete name s3 = (Inr u, s4)" and
    r4: "(if ns \<noteq> []
          then bnd (rd (cmds_namespaceInfo ns))
                 (\<lambda>l. if l = [] then cmds_namespace_rm ns False else ret ())
          else ret ()) s4 = (Inr (), s)"
    by (rule bnd_Inr)
  have nodes: "sc_nodes s = sc_nodes s4"
    using r4
    by (auto simp: ret_def rd_def elim!: bnd_Inr dest: namespace_rm_nodes split: if_splits)
  from get_name_node[OF nm] w obtain nd where
    nd: "map_of (sc_nodes sc) (dependnode n) = Some nd" "nd_name nd = name"
    by auto
  from get_name_obj[OF nm] obtain m where m: "obj_of_name sc name = Some m" by blast
  from name_unique[OF d nd(1)] m nd(2) have "m = dependnode n" by simp
  with delete_removes[OF 4[unfolded s3] m] nodes
  have "map_of (sc_nodes s) (dependnode n) = None" by simp
  with s show ?thesis by (simp add: om_isValid_def)
qed

lemma stale_reads:
  assumes "\<not> om_isValid sc (dependnode n)"
  shows "Node_get_name n sc = Inl (RuntimeError (stale_msg n))"
    "Node_namespace n sc = Inl (RuntimeError (stale_msg n))"
    "Node_nodename n sc = Inl (RuntimeError (stale_msg n))"
    "Node_repr n sc = Inl (RuntimeError (stale_msg n))"
    "System_type n sc = Inl (RuntimeError (stale_msg n))"
  by (simp_all add: Node_get_name_def Node_namespace_def Node_nodename_def Node_repr_def
      System_type_def stale_fn[OF assms] ebind_def)

lemma stale_delete:
  assumes "\<not> om_isValid sc (dependnode n)"
  shows "Node_delete n sc = (Inl (RuntimeError (stale_msg n)), sc)"
  by (simp add: Node_delete_def bnd_def rd_def stale_reads(2)[OF assms])

lemma stale_export:
  assumes "\<not> om_isValid sc (dependnode n)" "kw ''self'' = None" "kw ''filename'' = None"
  shows "Node_export n p kw sc = (Inl (RuntimeError (stale_msg n)), sc)"
  using assms(2,3)
  by (simp add: Node_export_def Node_export_body_def KeepSel_def bnd_def rd_def
      stale_reads(1)[OF assms(1)])

lemmas node_read_defs =
  Node_get_name_def Node_namespace_def Node_nodename_def Node_repr_def Node_fn_def
  om_isValid_def om_partialPathName_def om_name_def om_namespace_def om_node_def ebind_def

lemma duck_deleted:
  "Node_delete duck example_scene =
     (Inr (), example_scene\<lparr>sc_nodes := tl (sc_nodes example_scene)\<rparr>)"
  by (simp add: Node_delete_def bnd_def rd_def ret_def node_read_defs cmds_delete_def
      obj_of_name_def ns_of_def rsplit1_def sep_def example_defs)

section \<open>Fresh names and identities\<close>

lemma digits_nonempty: "digits n \<noteq> []"
  by (subst digits.simps) simp

lemma digit_char_inj:
  assumes "char_of (48 + a) = char_of (48 + b)" "a < 10" "b < 10"
  shows "a = (b::nat)"
proof -
  from assms(1) have "of_char (char_of (48 + a)) = (of_char (char_of (48 + b)) :: nat)" by simp
  then have "(48 + a) mod 256 = (48 + b) mod 256" by (simp add: of_char_of)
  with assms(2,3) show ?thesis by simp
qed

lemma digits_inj: "digits n = digits m \<Longrightarrow> n = m"
proof (induction n arbitrary: m rule: digits.induct)
  case (1 n)
  show ?case
  proof (cases "n < 10")
    case True
    then have n: "digits n = [char_of (48 + n)]" by (subst digits.simps) simp
    show ?thesis
    proof (cases "m < 10")
      case mt: True
      then have "digits m = [char_of (48 + m)]" by (subst digits.simps) simp
      with n 1(2) True mt show ?thesis by (auto dest: digit_char_inj)
    next
      case False
      then have "digits m = digits (m div 10) @ [char_of (48 + m mod 10)]"
        by (subst digits.simps) simp
      with n 1(2) digits_nonempty[of "m div 10"] show ?thesis by (cases "digits (m div 10)") auto
    qed
  next
    case False
    then have n: "digits n = digits (n div 10) @ [char_of (48 + n mod 10)]"
      by (subst digits.simps) simp
    show ?thesis
    proof (cases "m < 10")
      case True
      then have "digits m = [char_of (48 + m)]" by (subst digits.simps) simp
      with n 1(2) digits_nonempty[of "n div 10"] show ?thesis by (cases "digits (n div 10)") auto
    next
      case mf: False
      then have "digits m = digits (m div 10) @ [char_of (48 + m mod 10)]"
        by (subst digits.simps) simp
      with n 1(2) have a: "digits (n div 10) = digits (m div 10)"
        and b: "char_of (48 + n mod 10) = char_of (48 + m mod 10)"
        by simp_all
      from 1(1)[OF False a] have "n div 10 = m div 10" .
      moreover from digit_char_inj[OF b] have "n mod 10 = m mod 10" by simp
      ultimately show ?thesis by (metis div_mult_mod_eq)
    qed
  qed
qed

lemma fresh_string_fresh: "fresh_string used base \<notin> set used"
proof (cases "base \<in> set used")
  case False
  then show ?thesis by (simp add: fresh_string_def)
next
  case True
  let ?cands = "map (\<lambda>k. base @ digits k) [1 ..< length used + 2]"
  have "inj (\<lambda>k. base @ digits k)" by (auto simp: inj_def dest: digits_inj)
  then have "inj_on (\<lambda>k. base @ digits k) (set [1 ..< length used + 2])"
    by (rule inj_on_subset) simp
  then have dc: "distinct ?cands" by (simp only: distinct_map distinct_upt simp_thms)
  have "find (\<lambda>c. c \<notin> set used) ?cands \<noteq> None"
  proof
    assume "find (\<lambda>c. c \<notin> set used) ?cands = None"
    then have "set ?cands \<subseteq> set used" by (auto simp: find_None_iff)
    then have "card (set ?cands) \<le> card (set used)" by (simp add: card_mono)
    moreover have "card (set ?cands) = length ?cands" using dc by (rule distinct_card)
    moreover have "card (set used) \<le> length used" by (rule card_length)
    moreover have "length ?cands = length used + 2 - 1"
      by (simp only: length_map length_upt)
    ultimately show False by arith
  qed
  then obtain c where c: "find (\<lambda>c. c \<notin> set used) ?cands = Some c" by auto
  from find_Some_mem[OF c] have "c \<notin> set used" by simp
  with True c show ?thesis by (simp add: fresh_string_def)
qed

lemma new_uuid_fresh: "new_uuid sc \<notin> set (node_names sc @ node_uuids sc)"
  unfolding new_uuid_def by (rule fresh_string_fresh)

lemma new_name_fresh: "new_name sc name \<notin> set (new_uuid sc # node_names sc @ node_uuids sc)"
  unfolding new_name_def by (rule fresh_string_fresh)

section \<open>Creation and reconstruction\<close>

lemma fold_max_ge: "a \<le> fold max ms (a::nat)"
  by (induction ms arbitrary: a) (auto intro: order_trans[OF max.cobounded2])

lemma fold_max_mem: "m \<in> set ms \<Longrightarrow> m \<le> fold max ms (a::nat)"
proof (induction ms arbitrary: a)
  case Nil
  then show ?case by simp
next
  case (Cons x ms)
  then show ?case
    using fold_max_ge[of "max x a" ms] by auto
qed

lemma fresh_handle_new: "map_of (sc_nodes sc) (fresh_handle sc) = None"
proof -
  have "fresh_handle sc \<notin> fst ` set (sc_nodes sc)"
  proof
    assume "fresh_handle sc \<in> fst ` set (sc_nodes sc)"
    then have "fresh_handle sc \<in> set (map fst (sc_nodes sc))" by simp
    from fold_max_mem[OF this, of 0] show False by (simp add: fresh_handle_def)
  qed
  then show ?thesis by (simp add: map_of_eq_None_iff)
qed

lemma update_node_other:
  "map_of ns m = None \<Longrightarrow>
   map (\<lambda>(m', nd). if m' = m then (m', g nd) else (m', nd)) ns = ns"
  by (induction ns) (auto split: if_splits)

lemma split_plug_join:
  assumes "CHR ''.'' \<notin> set a"
  shows "split_plug (obj @ ''.'' @ a) = Some (obj, a)"
proof -
  let ?P = "\<lambda>c. c \<noteq> CHR ''.''"
  have p: "\<And>x. x \<in> set (rev a) \<Longrightarrow> ?P x" using assms by auto
  have t: "takeWhile ?P (rev a @ CHR ''.'' # rev obj) = rev a"
    using takeWhile_append2[of "rev a" ?P "CHR ''.'' # rev obj"] p by simp
  have d: "dropWhile ?P (rev a @ CHR ''.'' # rev obj) = CHR ''.'' # rev obj"
    using dropWhile_append2[of "rev a" ?P "CHR ''.'' # rev obj"] p by simp
  show ?thesis by (simp add: split_plug_def t d)
qed

lemma split_plug_attr:
  "split_plug (obj @ CHR ''.'' # SYSTEM_TYPE_ATTR_NAME) = Some (obj, SYSTEM_TYPE_ATTR_NAME)"
  using split_plug_join[of SYSTEM_TYPE_ATTR_NAME obj]
  by (simp add: SYSTEM_TYPE_ATTR_NAME_def)

lemma ls_obj:
  assumes "cmds_ls p sc = x # xs"
  shows "obj_of_name sc x \<noteq> None"
proof -
  from assms have "x \<in> set (cmds_ls p sc)" by simp
  then obtain m nd where "(m, nd) \<in> set (sc_nodes sc)" "nd_name nd = x"
    by (auto simp: cmds_ls_def)
  then have "find (\<lambda>(m, nd). nd_name nd = x) (sc_nodes sc) \<noteq> None"
    by (auto simp: find_None_iff)
  then show ?thesis by (simp add: obj_of_name_def)
qed

lemma createNode_result:
  assumes "parent = None \<or> obj_of_name sc (the parent) \<noteq> None"
  shows "cmds_createNode ty name parent sc =
    (Inr (new_name sc name),
     sc\<lparr>sc_nodes :=
          (fresh_handle sc,
           \<lparr>nd_uuid = new_uuid sc, nd_name = new_name sc name, nd_type = ty,
            nd_dag = (ty \<in> set (sc_dag_types sc)),
            nd_parent = (case parent of None \<Rightarrow> None | Some p \<Rightarrow> obj_of_name sc p),
            nd_attrs = Map.empty\<rparr>) # sc_nodes sc,
        sc_namespaces := add_ns (ns_of (new_name sc name)) (sc_namespaces sc)\<rparr>)"
  using assms by (auto simp: cmds_createNode_def Let_def)

text \<open>A scene whose first node is new: what the calls after \<open>createNode\<close> see.\<close>

lemma head_reads:
  assumes "sc_nodes sc = (m, nd) # rest"
  shows "name_to_node sc (nd_name nd) = Some m"
    and "name_to_node sc (nd_uuid nd) = Some m"
    and "obj_of_name sc (nd_name nd) = Some m"
    and "map_of (sc_nodes sc) m = Some nd"
    and "om_node sc m = Inr nd"
    and "om_isValid sc m"
  using assms by (simp_all add: name_to_node_def obj_of_name_def om_node_def om_isValid_def)

lemma head_update:
  assumes "sc_nodes sc = (m, nd) # rest" "map_of rest m = None"
  shows "sc_nodes (update_node m g sc) = (m, g nd) # rest"
  using assms by (simp add: update_node_def update_node_other)

lemma head_Node_new:
  assumes "sc_nodes sc = (m, nd) # rest"
  shows "Node_new C (Str (nd_name nd)) sc =
    Inr (Some \<lparr>node_cls = C, node_str = nd_uuid nd, dependnode = m,
      node_fn = (if nd_dag nd then MFnDagNode m else MFnDependencyNode m)\<rparr>)"
    and "Node_new C (Str (nd_uuid nd)) sc =
    Inr (Some \<lparr>node_cls = C, node_str = nd_uuid nd, dependnode = m,
      node_fn = (if nd_dag nd then MFnDagNode m else MFnDependencyNode m)\<rparr>)"
  using head_reads[OF assms] by (simp_all add: Node_new_live resolve_def)

lemma head_get_name:
  assumes "sc_nodes sc = (m, nd) # rest" "dependnode n = m" "fn_object (node_fn n) = m"
  shows "Node_get_name n sc = Inr (nd_name nd)"
  using head_reads[OF assms(1)] assms(2,3)
  by (simp add: Node_get_name_def Node_fn_def ebind_def om_partialPathName_def om_name_def)

lemma head_add_system_attr:
  assumes h: "sc_nodes sc = (m, nd) # rest" and f: "map_of rest m = None"
  shows "\<exists>sc'. add_system_attr (nd_name nd) v sc = (Inr (), sc') \<and>
    sc_nodes sc' = (m, nd\<lparr>nd_attrs := (nd_attrs nd)(SYSTEM_TYPE_ATTR_NAME \<mapsto> v)\<rparr>) # rest \<and>
    sc_namespaces sc' = sc_namespaces sc \<and> sc_selection sc' = sc_selection sc \<and>
    sc_files sc' = sc_files sc \<and> sc_dag_types sc' = sc_dag_types sc"
proof -
  let ?a = SYSTEM_TYPE_ATTR_NAME
  note r = head_reads[OF h]
  have q: "rd (cmds_attributeQuery ?a (nd_name nd)) sc = (Inr (nd_attrs nd ?a \<noteq> None), sc)"
    using r by (simp add: rd_def cmds_attributeQuery_def ebind_def)
  show ?thesis
  proof (cases "nd_attrs nd ?a")
    case None
    let ?nd1 = "nd\<lparr>nd_attrs := (nd_attrs nd)(?a \<mapsto> [])\<rparr>"
    let ?s1 = "update_node m (\<lambda>nd. nd\<lparr>nd_attrs := (nd_attrs nd)(?a \<mapsto> [])\<rparr>) sc"
    have a1: "cmds_addAttr (nd_name nd) ?a sc = (Inr (), ?s1)"
      using r None by (simp add: cmds_addAttr_def)
    have h1: "sc_nodes ?s1 = (m, ?nd1) # rest" using head_update[OF h f] by simp
    note r1 = head_reads[OF h1]
    let ?s2 = "update_node m (\<lambda>nd. nd\<lparr>nd_attrs := (nd_attrs nd)(?a \<mapsto> v)\<rparr>) ?s1"
    have a2: "cmds_setAttr (nd_name nd @ ''.'' @ ?a) v ?s1 = (Inr (), ?s2)"
      using r1 by (simp add: cmds_setAttr_def split_plug_attr)
    have h2: "sc_nodes ?s2 = (m, ?nd1\<lparr>nd_attrs := (nd_attrs ?nd1)(?a \<mapsto> v)\<rparr>) # rest"
      using head_update[OF h1 f] by simp
    have "add_system_attr (nd_name nd) v sc = (Inr (), ?s2)"
      using None q a1 a2 by (simp add: add_system_attr_def bnd_def)
    moreover have "sc_nodes ?s2 = (m, nd\<lparr>nd_attrs := (nd_attrs nd)(?a \<mapsto> v)\<rparr>) # rest"
      using h2 by simp
    ultimately show ?thesis by (auto simp: update_node_def)
  next
    case (Some old)
    let ?s2 = "update_node m (\<lambda>nd. nd\<lparr>nd_attrs := (nd_attrs nd)(?a \<mapsto> v)\<rparr>) sc"
    have a2: "cmds_setAttr (nd_name nd @ ''.'' @ ?a) v sc = (Inr (), ?s2)"
      using r Some by (simp add: cmds_setAttr_def split_plug_attr)
    have "add_system_attr (nd_name nd) v sc = (Inr (), ?s2)"
      using Some q a2 by (simp add: add_system_attr_def bnd_def ret_def)
    moreover have "sc_nodes ?s2 = (m, nd\<lparr>nd_attrs := (nd_attrs nd)(?a \<mapsto> v)\<rparr>) # rest"
      using head_update[OF h f] by simp
    ultimately show ?thesis by (auto simp: update_node_def)
  qed
qed

lemma Node_create_fail:
  "cmds_ls p sc = [] \<Longrightarrow>
   Node_create C name (Some p) sc = (Inl (IndexError ''list index out of range''), sc)"
  by (simp add: Node_create_def bnd_def)

lemma System_create_fail:
  "cmds_ls p sc = [] \<Longrightarrow>
   System_create C name (Some p) sc = (Inl (IndexError ''list index out of range''), sc)"
  by (simp add: System_create_def bnd_def Node_create_fail)

lemma Node_create_alt:
  "Node_create C name parent =
     bnd (case parent of
            None \<Rightarrow> ret None
          | Some p \<Rightarrow>
              (\<lambda>sc. case cmds_ls p sc of
                       [] \<Rightarrow> (Inl (IndexError ''list index out of range''), sc)
                     | x # xs \<Rightarrow> (Inr (Some x), sc)))
       (\<lambda>parent'. bnd (cmds_createNode (cls_NODETYPE C) (requested_name C name) parent')
               (\<lambda>root. rd (Node_new C (Str root))))"
  by (simp add: Node_create_def requested_name_def Let_def)

lemma Node_create_ok:
  assumes "parent = None \<or> (\<exists>p. parent = Some p \<and> cmds_ls p sc \<noteq> [])"
  shows "\<exists>nd sc1.
    Node_create C name parent sc =
      (Inr (Some \<lparr>node_cls = C, node_str = nd_uuid nd, dependnode = fresh_handle sc,
         node_fn = (if nd_dag nd then MFnDagNode (fresh_handle sc)
                    else MFnDependencyNode (fresh_handle sc))\<rparr>), sc1) \<and>
    sc_nodes sc1 = (fresh_handle sc, nd) # sc_nodes sc \<and>
    nd_type nd = cls_NODETYPE C \<and> nd_name nd = new_name sc (requested_name C name) \<and>
    nd_uuid nd = new_uuid sc \<and> nd_attrs nd = Map.empty \<and>
    nd_dag nd = (cls_NODETYPE C \<in> set (sc_dag_types sc)) \<and>
    sc_namespaces sc1 = add_ns (ns_of (nd_name nd)) (sc_namespaces sc) \<and>
    sc_selection sc1 = sc_selection sc \<and> sc_files sc1 = sc_files sc \<and>
    sc_dag_types sc1 = sc_dag_types sc"
proof -
  obtain parent' where p: "(case parent of
            None \<Rightarrow> ret None
          | Some p \<Rightarrow>
              (\<lambda>sc. case cmds_ls p sc of
                       [] \<Rightarrow> (Inl (IndexError ''list index out of range''), sc)
                     | x # xs \<Rightarrow> (Inr (Some x), sc))) sc = (Inr parent', sc)"
    and ok: "parent' = None \<or> obj_of_name sc (the parent') \<noteq> None"
    using assms
  proof
    assume "parent = None"
    then show ?thesis using that[of None] by (simp add: ret_def)
  next
    assume "\<exists>p. parent = Some p \<and> cmds_ls p sc \<noteq> []"
    then obtain q x xs where "parent = Some q" "cmds_ls q sc = x # xs"
      by (auto simp: neq_Nil_conv)
    then show ?thesis using that[of "Some x"] ls_obj[of q sc x xs] by simp
  qed
  let ?nm = "requested_name C name"
  let ?nd = "\<lparr>nd_uuid = new_uuid sc, nd_name = new_name sc ?nm, nd_type = cls_NODETYPE C,
            nd_dag = (cls_NODETYPE C \<in> set (sc_dag_types sc)),
            nd_parent = (case parent' of None \<Rightarrow> None | Some p \<Rightarrow> obj_of_name sc p),
            nd_attrs = Map.empty\<rparr>"
  let ?s1 = "sc\<lparr>sc_nodes := (fresh_handle sc, ?nd) # sc_nodes sc,
        sc_namespaces := add_ns (ns_of (new_name sc ?nm)) (sc_namespaces sc)\<rparr>"
  have c: "cmds_createNode (cls_NODETYPE C) ?nm parent' sc = (Inr (new_name sc ?nm), ?s1)"
    using createNode_result[OF ok] by simp
  have h: "sc_nodes ?s1 = (fresh_handle sc, ?nd) # sc_nodes sc" by simp
  have n: "Node_new C (Str (new_name sc ?nm)) ?s1 =
    Inr (Some \<lparr>node_cls = C, node_str = nd_uuid ?nd, dependnode = fresh_handle sc,
      node_fn = (if nd_dag ?nd then MFnDagNode (fresh_handle sc)
                 else MFnDependencyNode (fresh_handle sc))\<rparr>)"
    using head_Node_new(1)[OF h, of C] by simp
  have "Node_create C name parent sc =
      (Inr (Some \<lparr>node_cls = C, node_str = nd_uuid ?nd, dependnode = fresh_handle sc,
         node_fn = (if nd_dag ?nd then MFnDagNode (fresh_handle sc)
                    else MFnDependencyNode (fresh_handle sc))\<rparr>), ?s1)"
    unfolding Node_create_alt
    using p c n
    by (simp add: bnd_def rd_def)
  then show ?thesis
    by (intro exI[of _ ?nd] exI[of _ ?s1]) simp
qed

lemma System_create_ok:
  assumes "parent = None \<or> (\<exists>p. parent = Some p \<and> cmds_ls p sc \<noteq> [])"
  shows "\<exists>nd sc'.
    System_create C name parent sc =
      (Inr (Some \<lparr>node_cls = C, node_str = nd_uuid nd, dependnode = fresh_handle sc,
         node_fn = (if nd_dag nd then MFnDagNode (fresh_handle sc)
                    else MFnDependencyNode (fresh_handle sc))\<rparr>), sc') \<and>
    sc_nodes sc' = (fresh_handle sc, nd) # sc_nodes sc \<and>
    nd_type nd = cls_NODETYPE C \<and> nd_name nd = new_name sc (requested_name C name) \<and>
    nd_uuid nd = new_uuid sc \<and> nd_attrs nd = [SYSTEM_TYPE_ATTR_NAME \<mapsto> cls_name C] \<and>
    nd_dag nd = (cls_NODETYPE C \<in> set (sc_dag_types sc)) \<and>
    sc_namespaces sc' = add_ns (ns_of (nd_name nd)) (sc_namespaces sc) \<and>
    sc_selection sc' = sc_selection sc \<and> sc_files sc' = sc_files sc \<and>
    sc_dag_types sc' = sc_dag_types sc"
proof -
  from Node_create_ok[OF assms, of C name] obtain nd sc1 where
    c: "Node_create C name parent sc =
      (Inr (Some \<lparr>node_cls = C, node_str = nd_uuid nd, dependnode = fresh_handle sc,
         node_fn = (if nd_dag nd then MFnDagNode (fresh_handle sc)
                    else MFnDependencyNode (fresh_handle sc))\<rparr>), sc1)"
    and h: "sc_nodes sc1 = (fresh_handle sc, nd) # sc_nodes sc"
    and f: "nd_type nd = cls_NODETYPE C" "nd_name nd = new_name sc (requested_name C name)"
      "nd_uuid nd = new_uuid sc" "nd_attrs nd = Map.empty"
      "nd_dag nd = (cls_NODETYPE C \<in> set (sc_dag_types sc))"
      "sc_namespaces sc1 = add_ns (ns_of (nd_name nd)) (sc_namespaces sc)"
      "sc_selection sc1 = sc_selection sc" "sc_files sc1 = sc_files sc"
      "sc_dag_types sc1 = sc_dag_types sc"
    by blast
  let ?n = "\<lparr>node_cls = C, node_str = nd_uuid nd, dependnode = fresh_handle sc,
         node_fn = (if nd_dag nd then MFnDagNode (fresh_handle sc)
                    else MFnDependencyNode (fresh_handle sc))\<rparr>"
  have g: "Node_get_name ?n sc1 = Inr (nd_name nd)"
    by (rule head_get_name[OF h]) simp_all
  from head_add_system_attr[OF h fresh_handle_new, of "cls_name C"] obtain sc' where
    a: "add_system_attr (nd_name nd) (cls_name C) sc1 = (Inr (), sc')"
    and h': "sc_nodes sc' =
      (fresh_handle sc, nd\<lparr>nd_attrs := (nd_attrs nd)(SYSTEM_TYPE_ATTR_NAME \<mapsto> cls_name C)\<rparr>)
        # sc_nodes sc"
    and r: "sc_namespaces sc' = sc_namespaces sc1" "sc_selection sc' = sc_selection sc1"
      "sc_files sc' = sc_files sc1" "sc_dag_types sc' = sc_dag_types sc1"
    by blast
  have "System_create_attributes ?n sc1 = (Inr (), sc')"
    using g a by (simp add: System_create_attributes_def bnd_def rd_def)
  then have "System_create C name parent sc = (Inr (Some ?n), sc')"
    using c by (simp add: System_create_def bnd_def ret_def)
  then show ?thesis
    using h' f r
    by (intro exI[of _ "nd\<lparr>nd_attrs := (nd_attrs nd)(SYSTEM_TYPE_ATTR_NAME \<mapsto> cls_name C)\<rparr>"]
        exI[of _ sc']) simp
qed

lemma head_type:
  assumes "sc_nodes sc = (m, nd) # rest" "dependnode n = m" "fn_object (node_fn n) = m"
    "nd_attrs nd SYSTEM_TYPE_ATTR_NAME = Some v"
  shows "System_type n sc = Inr v"
  using head_get_name[OF assms(1-3)] head_reads[OF assms(1)] assms(4)
  by (simp add: System_type_def ebind_def cmds_getAttr_def split_plug_attr)

lemma fresh_string_unused: "base \<notin> set used \<Longrightarrow> fresh_string used base = base"
  by (simp add: fresh_string_def)

lemma get_system_resolves:
  assumes "name_to_node sc (node_str n) = Some m" "map_of (sc_nodes sc) m = Some nd"
    "nd_uuid nd = node_str n" "nd_attrs nd SYSTEM_TYPE_ATTR_NAME = Some (cls_name (node_cls n))"
    "f (cls_name (node_cls n)) = Some (node_cls n)"
  shows "\<exists>n'. Factory_get_system f (Str (node_str n)) sc = Inr (Some n') \<and> Node_eq n n' \<and>
           dependnode n' = m"
proof -
  have r: "resolve sc (Str (node_str n)) = Some m" using assms(1) by (simp add: resolve_def)
  have c: "Factory_get_system_class f (Str (node_str n)) sc = Inr (Some (node_cls n))"
    using get_system_class_at[OF r assms(2), of f] assms(4,5) by simp
  show ?thesis
    using c Node_new_live[OF r assms(2), of "node_cls n"] assms(3)
    by (simp add: Factory_get_system_def ebind_def Node_eq_def)
qed

lemma System_create_Some:
  assumes "System_create C name parent sc = (Inr (Some n), sc')"
  shows "\<exists>nd. sc_nodes sc' = (dependnode n, nd) # sc_nodes sc \<and>
    map_of (sc_nodes sc) (dependnode n) = None \<and>
    n = \<lparr>node_cls = C, node_str = nd_uuid nd, dependnode = dependnode n,
         node_fn = (if nd_dag nd then MFnDagNode (dependnode n)
                    else MFnDependencyNode (dependnode n))\<rparr> \<and>
    nd_type nd = cls_NODETYPE C \<and> nd_name nd = new_name sc (requested_name C name) \<and>
    nd_attrs nd = [SYSTEM_TYPE_ATTR_NAME \<mapsto> cls_name C]"
proof (cases "parent = None \<or> (\<exists>p. parent = Some p \<and> cmds_ls p sc \<noteq> [])")
  case True
  from System_create_ok[OF True, of C name] obtain nd sc'' where
    c: "System_create C name parent sc =
      (Inr (Some \<lparr>node_cls = C, node_str = nd_uuid nd, dependnode = fresh_handle sc,
         node_fn = (if nd_dag nd then MFnDagNode (fresh_handle sc)
                    else MFnDependencyNode (fresh_handle sc))\<rparr>), sc'')"
    and h: "sc_nodes sc'' = (fresh_handle sc, nd) # sc_nodes sc"
    and f: "nd_type nd = cls_NODETYPE C" "nd_name nd = new_name sc (requested_name C name)"
      "nd_attrs nd = [SYSTEM_TYPE_ATTR_NAME \<mapsto> cls_name C]"
    by blast
  from c assms have n: "n = \<lparr>node_cls = C, node_str = nd_uuid nd, dependnode = fresh_handle sc,
         node_fn = (if nd_dag nd then MFnDagNode (fresh_handle sc)
                    else MFnDependencyNode (fresh_handle sc))\<rparr>" and s: "sc' = sc''"
    by simp_all
  from n have d: "dependnode n = fresh_handle sc" by simp
  show ?thesis
    apply (rule exI[of _ nd])
    using h f fresh_handle_new[of sc] s d n by simp
next
  case False
  then obtain p where "parent = Some p" "cmds_ls p sc = []" by auto
  with System_create_fail[of p sc C name] assms show ?thesis by simp
qed

lemma created_resolves:
  assumes c: "System_create C name parent sc = (Inr (Some n), sc')" and f: "f (cls_name C) = Some C"
  shows "Factory_get_system f (Str (node_str n)) sc' = Inr (Some n) \<and> node_cls n = C"
proof -
  from System_create_Some[OF c] obtain nd where
    h: "sc_nodes sc' = (dependnode n, nd) # sc_nodes sc"
    and n: "n = \<lparr>node_cls = C, node_str = nd_uuid nd, dependnode = dependnode n,
         node_fn = (if nd_dag nd then MFnDagNode (dependnode n)
                    else MFnDependencyNode (dependnode n))\<rparr>"
    and a: "nd_attrs nd = [SYSTEM_TYPE_ATTR_NAME \<mapsto> cls_name C]"
    by blast
  from n have s: "node_str n = nd_uuid nd" and k: "node_cls n = C"
    by (metis node.select_convs(2), metis node.select_convs(1))
  note r = head_reads[OF h]
  have rs: "resolve sc' (Str (node_str n)) = Some (dependnode n)"
    using r(2) s by (simp add: resolve_def)
  have gc: "Factory_get_system_class f (Str (node_str n)) sc' = Inr (Some C)"
    using get_system_class_at[OF rs r(4), of f] a f by simp
  have "Node_new C (Str (node_str n)) sc' = Inr (Some n)"
    using Node_new_live[OF rs r(4), of C] n by simp
  with gc k show ?thesis by (simp add: Factory_get_system_def ebind_def)
qed

lemma serialize_type:
  "Node_serialize n sc = Inr d \<Longrightarrow> d = [(''type'', cls_name (node_cls n))]"
  by (auto simp: Node_serialize_def ebind_def split: sum.splits)

lemma duck_created:
  "System_create System (Some ''duck'') None empty_scene = (Inr (Some created_duck), duck_scene)"
  by (simp add: System_create_def Node_create_def System_create_attributes_def
      add_system_attr_def bnd_def ret_def rd_def cmds_createNode_def new_name_def new_uuid_def
      fresh_string_def fresh_handle_def node_names_def node_uuids_def Node_new_def resolve_def
      name_to_node_def om_hasObj_def om_setObject_def om_uuid_def om_node_def ebind_def
      Node_get_name_def Node_fn_def om_isValid_def om_partialPathName_def
      cmds_attributeQuery_def cmds_addAttr_def cmds_setAttr_def split_plug_def obj_of_name_def
      update_node_def add_ns_def ns_of_def rsplit1_def sep_def Let_def
      created_duck_def duck_scene_def empty_scene_def transform_node_def System_def
      SYSTEM_TYPE_ATTR_NAME_def)

section \<open>Renaming\<close>

lemma ids_rename_nodes: "ids (rename_nodes g sc) = ids sc"
  by (simp add: ids_def rename_nodes_def case_prod_unfold)

lemma ids_update_name: "ids (update_node m (\<lambda>nd. nd\<lparr>nd_name := x\<rparr>) sc) = ids sc"
  by (simp add: ids_def update_node_def case_prod_unfold cong: if_cong)

lemma ids_upd_ns: "ids (sc\<lparr>sc_namespaces := x\<rparr>) = ids sc"
  by (simp add: ids_def)

lemma ids_checked_move: "ids (snd (checked_move a b sc)) = ids sc"
  by (simp add: checked_move_def move_contents_def Let_def ids_upd_ns ids_rename_nodes)

lemma ids_bnd:
  assumes "\<And>s. ids (snd (m s)) = ids s" "\<And>x s. ids (snd (f x s)) = ids s"
  shows "ids (snd (bnd m f sc)) = ids sc"
proof (cases "m sc")
  case (Pair r s)
  with assms(1)[of sc] have "ids s = ids sc" by simp
  with Pair assms(2) show ?thesis by (cases r) (simp_all add: bnd_def)
qed

lemma ids_rd: "ids (snd (rd g sc)) = ids sc"
  by (simp add: rd_def)

lemma ids_ret: "ids (snd (ret x sc)) = ids sc"
  by (simp add: ret_def)

lemma ids_raise: "ids (snd (raise e sc)) = ids sc"
  by (simp add: raise_def)

lemma ids_if:
  "ids (snd (A sc)) = ids sc \<Longrightarrow> ids (snd (B sc)) = ids sc \<Longrightarrow>
   ids (snd ((if c then A else B) sc)) = ids sc"
  by simp

lemma ids_namespace_mv: "ids (snd (cmds_namespace_mv p sc)) = ids sc"
  by (simp add: cmds_namespace_mv_def ids_checked_move split: prod.splits)

lemma ids_namespace_add: "ids (snd (cmds_namespace_add ns sc)) = ids sc"
  by (simp add: cmds_namespace_add_def ids_upd_ns)

lemma ids_then_ns:
  "ids (snd (bnd (checked_move a b) (\<lambda>_ sc'. (Inr (), sc'\<lparr>sc_namespaces := g sc'\<rparr>)) sc)) = ids sc"
  by (rule ids_bnd) (simp_all add: ids_checked_move ids_upd_ns)

lemma ids_namespace_ren: "ids (snd (cmds_namespace_ren p parent sc)) = ids sc"
  by (cases p) (simp add: cmds_namespace_ren_def Let_def ids_then_ns)

lemma ids_namespace_rm: "ids (snd (cmds_namespace_rm ns mg sc)) = ids sc"
  by (simp add: cmds_namespace_rm_def ids_then_ns ids_upd_ns)

lemma ids_cmds_rename: "ids (snd (cmds_rename old new sc)) = ids sc"
proof (cases "obj_of_name sc old")
  case None
  then show ?thesis by (simp add: cmds_rename_def)
next
  case (Some m)
  then show ?thesis by (simp add: cmds_rename_def Let_def ids_upd_ns ids_update_name)
qed

lemma ids_namespace_setter: "ids (snd (Node_namespace_setter n v sc)) = ids sc"
  unfolding Node_namespace_setter_def Let_def
  by (intro ids_bnd ids_if ids_rd ids_ret ids_namespace_mv ids_namespace_rm
      ids_namespace_ren ids_namespace_add)

lemma ids_rename: "ids (snd (Node_rename n v sc)) = ids sc"
  unfolding Node_rename_def Let_def
  by (intro ids_bnd ids_if ids_rd ids_ret ids_raise ids_namespace_setter ids_cmds_rename)

lemma map_of_ids:
  "map_of (ids sc) m = map_option (\<lambda>nd. nd\<lparr>nd_name := []\<rparr>) (map_of (sc_nodes sc) m)"
  by (simp add: ids_def map_of_map)

lemma ids_lookup:
  assumes "ids sc' = ids sc"
  shows "(map_of (sc_nodes sc') m = None) = (map_of (sc_nodes sc) m = None)"
    and "map_option nd_uuid (map_of (sc_nodes sc') m) = map_option nd_uuid (map_of (sc_nodes sc) m)"
    and "map_option nd_dag (map_of (sc_nodes sc') m) = map_option nd_dag (map_of (sc_nodes sc) m)"
proof -
  have e: "map_option (\<lambda>nd. nd\<lparr>nd_name := []\<rparr>) (map_of (sc_nodes sc') m) =
           map_option (\<lambda>nd. nd\<lparr>nd_name := []\<rparr>) (map_of (sc_nodes sc) m)"
    using assms map_of_ids[of sc' m] map_of_ids[of sc m] by simp
  then show "(map_of (sc_nodes sc') m = None) = (map_of (sc_nodes sc) m = None)"
    by (cases "map_of (sc_nodes sc') m"; cases "map_of (sc_nodes sc) m") simp_all
  from e have "map_option (nd_uuid \<circ> (\<lambda>nd. nd\<lparr>nd_name := []\<rparr>)) (map_of (sc_nodes sc') m) =
               map_option (nd_uuid \<circ> (\<lambda>nd. nd\<lparr>nd_name := []\<rparr>)) (map_of (sc_nodes sc) m)"
    by (simp add: option.map_comp[symmetric])
  then show "map_option nd_uuid (map_of (sc_nodes sc') m) = map_option nd_uuid (map_of (sc_nodes sc) m)"
    by (simp add: comp_def)
  from e have "map_option (nd_dag \<circ> (\<lambda>nd. nd\<lparr>nd_name := []\<rparr>)) (map_of (sc_nodes sc') m) =
               map_option (nd_dag \<circ> (\<lambda>nd. nd\<lparr>nd_name := []\<rparr>)) (map_of (sc_nodes sc) m)"
    by (simp add: option.map_comp[symmetric])
  then show "map_option nd_dag (map_of (sc_nodes sc') m) = map_option nd_dag (map_of (sc_nodes sc) m)"
    by (simp add: comp_def)
qed

lemma ids_isValid: "ids sc' = ids sc \<Longrightarrow> om_isValid sc' m = om_isValid sc m"
  using ids_lookup(1)[of sc' sc m] by (simp add: om_isValid_def)

lemma ids_uuid:
  assumes "ids sc' = ids sc"
  shows "om_uuid sc' fn = om_uuid sc fn"
  using ids_lookup(2)[OF assms, of "fn_object fn"]
  by (cases "map_of (sc_nodes sc') (fn_object fn)"; cases "map_of (sc_nodes sc) (fn_object fn)")
    (simp_all add: om_uuid_def om_node_def ebind_def)

lemma ids_Node_new:
  assumes "ids sc' = ids sc"
  shows "Node_new C (Obj m) sc' = Node_new C (Obj m) sc"
  using ids_lookup(2)[OF assms, of m] ids_lookup(3)[OF assms, of m]
  by (cases "map_of (sc_nodes sc') m"; cases "map_of (sc_nodes sc) m")
    (simp_all add: Node_new_def resolve_def om_hasObj_def om_setObject_def om_uuid_def
      om_node_def ebind_def)

lemma map_of_update:
  "map_of (map (\<lambda>(m', nd). if m' = m then (m', g nd) else (m', nd)) ns) m =
   map_option g (map_of ns m)"
  by (induction ns) auto

lemma others_names:
  "set (map (\<lambda>(m', nd). nd_name nd) (filter (\<lambda>(m', nd). m' \<noteq> m) (sc_nodes sc)))
     \<subseteq> set (node_names sc)"
  by (auto simp: node_names_def)

lemma rename_simple:
  assumes nm: "Node_get_name n sc = Inr name" and ns: "sep \<notin> set name"
    and v: "v \<noteq> []" "last v \<noteq> sep"
    and d: "distinct (node_names sc)" and w: "fn_object (node_fn n) = dependnode n"
    and u: "v \<notin> set (node_names sc @ node_uuids sc)"
  shows "fst (Node_rename n v sc) = Inr () \<and>
         Node_get_name n (snd (Node_rename n v sc)) = Inr v"
proof -
  let ?m = "dependnode n"
  from get_name_node[OF nm] w obtain nd where
    nd: "map_of (sc_nodes sc) ?m = Some nd" "nd_name nd = name"
    by auto
  from get_name_obj[OF nm] obtain m where m: "obj_of_name sc name = Some m" by blast
  from name_unique[OF d nd(1)] m nd(2) have mm: "m = ?m" by simp
  let ?others = "filter (\<lambda>(m', nd). m' \<noteq> ?m) (sc_nodes sc)"
  have "v \<notin> set (map (\<lambda>(m', nd). nd_name nd) ?others @ node_uuids sc)"
    using u others_names[of ?m sc] by auto
  then have fr: "fresh_string (map (\<lambda>(m', nd). nd_name nd) ?others @ node_uuids sc) v = v"
    by (rule fresh_string_unused)
  let ?s1 = "update_node ?m (\<lambda>nd. nd\<lparr>nd_name := v\<rparr>) sc"
  let ?s2 = "?s1\<lparr>sc_namespaces := add_ns (ns_of v) (sc_namespaces ?s1)\<rparr>"
  have r: "cmds_rename name v sc = (Inr v, ?s2)"
    using m mm v(1) fr by (simp add: cmds_rename_def Let_def)
  have a: "rd (Node_get_name n) sc = (Inr name, sc)" using nm by (simp add: rd_def)
  have "Node_rename n v sc = (Inr (), ?s2)"
    using ns v a r by (simp add: Node_rename_def bnd_def ret_def Let_def)
  moreover have "map_of (sc_nodes ?s2) ?m = Some (nd\<lparr>nd_name := v\<rparr>)"
    using nd(1) by (simp add: update_node_def map_of_update)
  then have "Node_get_name n ?s2 = Inr v"
    using w
    by (simp add: Node_get_name_def Node_fn_def om_isValid_def ebind_def om_partialPathName_def
        om_name_def om_node_def)
  ultimately show ?thesis by simp
qed

lemma arm_renamed:
  "fst (Node_rename arm ''other:hand'' example_scene) = Inr () \<and>
   Node_get_name arm (snd (Node_rename arm ''other:hand'' example_scene)) = Inr ''other:hand'' \<and>
   sc_namespaces (snd (Node_rename arm ''other:hand'' example_scene)) = [''other'']"
  by (simp add: Node_rename_def Node_namespace_setter_def bnd_def rd_def ret_def Let_def
      node_read_defs cmds_namespace_ex_def cmds_namespace_ren_def checked_move_def
      move_contents_def rename_nodes_def reprefix_def under_def node_names_def node_uuids_def
      cmds_rename_def obj_of_name_def fresh_string_def update_node_def add_ns_def
      ns_of_def base_of_def rsplit1_def sep_def example_defs)

section \<open>Claims\<close>

text \<open>
  C1 (as amended). For every string passed to \<open>Factory.get_system_class\<close> (a name, an
  identity or a \<open>Node\<close>), and for every object reference whose node exists: if the
  reference resolves to nothing the result is \<open>None\<close>; if the node lacks the
  \<open>system_type\<close> attribute the result is \<open>None\<close>; if the value of the attribute is a key
  of the registry the result is the registered class; if it is not, the result is the
  base \<open>System\<close> class. These cases are all there are, so the call raises in none of
  them. An object reference is used as passed, without a check that its node exists.
\<close>

theorem get_system_class_cases:
  assumes "obj = Str s \<or> (obj = Obj m \<and> om_isValid sc m)"
  shows "(resolve sc obj = None \<longrightarrow> Factory_get_system_class self obj sc = Inr None) \<and>
    (\<forall>h nd. resolve sc obj = Some h \<and> map_of (sc_nodes sc) h = Some nd \<longrightarrow>
       (nd_attrs nd SYSTEM_TYPE_ATTR_NAME = None \<longrightarrow>
          Factory_get_system_class self obj sc = Inr None) \<and>
       (\<forall>tag. nd_attrs nd SYSTEM_TYPE_ATTR_NAME = Some tag \<longrightarrow>
          (\<forall>c. self tag = Some c \<longrightarrow> Factory_get_system_class self obj sc = Inr (Some c)) \<and>
          (self tag = None \<longrightarrow> Factory_get_system_class self obj sc = Inr (Some System)))) \<and>
    (resolve sc obj = None \<or>
       (\<exists>h nd. resolve sc obj = Some h \<and> map_of (sc_nodes sc) h = Some nd))"
proof (intro conjI allI impI)
  show "resolve sc obj = None \<or>
    (\<exists>h nd. resolve sc obj = Some h \<and> map_of (sc_nodes sc) h = Some nd)"
    using assms
  proof
    assume "obj = Str s"
    then show ?thesis
      using name_to_node_live[of sc s] om_isValid_node[of sc]
      by (cases "name_to_node sc s") (auto simp: resolve_def)
  next
    assume "obj = Obj m \<and> om_isValid sc m"
    then show ?thesis using om_isValid_node[of sc m] by (auto simp: resolve_def)
  qed
qed (auto simp: get_system_class_none get_system_class_at)

theorem get_system_class_cases_witness:
  "Factory_get_system_class rig_factory (Str ''goose'') example_scene = Inr None \<and>
   Factory_get_system_class rig_factory (Str ''rock'') example_scene = Inr None \<and>
   Factory_get_system_class rig_factory (Str ''u4'') example_scene = Inr (Some Rig) \<and>
   Factory_get_system_class rig_factory (Str ''egg'') example_scene = Inr (Some System) \<and>
   Factory_get_system_class rig_factory (Obj 4) example_scene = Inr (Some Rig)"
proof -
  have r1: "resolve example_scene (Str ''goose'') = None"
    and r2: "resolve example_scene (Str ''rock'') = Some 2"
    and r3: "resolve example_scene (Str ''u4'') = Some 4"
    and r4: "resolve example_scene (Str ''egg'') = Some 3"
    and r5: "resolve example_scene (Obj 4) = Some 4"
    by (simp_all add: resolve_defs example_defs)
  have m2: "map_of (sc_nodes example_scene) 2 = Some (transform_node ''u2'' ''rock'' Map.empty)"
    and m3: "map_of (sc_nodes example_scene) 3 =
               Some (transform_node ''u3'' ''egg'' [''system_type'' \<mapsto> ''Alien''])"
    and m4: "map_of (sc_nodes example_scene) 4 =
               Some (transform_node ''u4'' ''ns:arm'' [''system_type'' \<mapsto> ''Rig''])"
    by (simp_all add: example_scene_def)
  have f: "rig_factory ''Rig'' = Some Rig" "rig_factory ''Alien'' = None"
    by (simp_all add: example_defs)
  have v: "om_isValid example_scene 4"
    by (simp add: om_isValid_def example_scene_def)
  have "Factory_get_system_class rig_factory (Str ''goose'') example_scene = Inr None"
    using get_system_class_cases[of "Str ''goose''" "''goose''" 0 example_scene rig_factory] r1
    by simp
  moreover have "Factory_get_system_class rig_factory (Str ''rock'') example_scene = Inr None"
    using get_system_class_cases[of "Str ''rock''" "''rock''" 0 example_scene rig_factory] r2 m2
    by (simp add: transform_node_def SYSTEM_TYPE_ATTR_NAME_def)
  moreover have "Factory_get_system_class rig_factory (Str ''u4'') example_scene = Inr (Some Rig)"
    using get_system_class_cases[of "Str ''u4''" "''u4''" 0 example_scene rig_factory] r3 m4 f
    by (simp add: transform_node_def SYSTEM_TYPE_ATTR_NAME_def)
  moreover have "Factory_get_system_class rig_factory (Str ''egg'') example_scene = Inr (Some System)"
    using get_system_class_cases[of "Str ''egg''" "''egg''" 0 example_scene rig_factory] r4 m3 f
    by (simp add: transform_node_def SYSTEM_TYPE_ATTR_NAME_def)
  moreover have "Factory_get_system_class rig_factory (Obj 4) example_scene = Inr (Some Rig)"
    using get_system_class_cases[of "Obj 4" "[]" 4 example_scene rig_factory] r5 m4 f v
    by (simp add: transform_node_def SYSTEM_TYPE_ATTR_NAME_def)
  ultimately show ?thesis by simp
qed

text \<open>
  The claim as stated fails for a reference to an object that was deleted: the
  function set is pointed at it without a check.
\<close>

theorem get_system_class_deleted_object_counterexample:
  "om_isValid example_scene 1 \<and>
   \<not> om_isValid (snd (cmds_delete ''duck'' example_scene)) 1 \<and>
   Factory_get_system_class rig_factory (Obj 1) (snd (cmds_delete ''duck'' example_scene))
     \<noteq> Inr None"
  by (simp add: om_isValid_def cmds_delete_def obj_of_name_def example_scene_def
      transform_node_def Factory_get_system_class_def resolve_def om_setObject_def
      om_node_def ebind_def)

text \<open>
  C2. Two \<open>Node\<close> instances are equal exactly when they have the same class and the
  same identity string; the equality is reflexive, symmetric and transitive, and
  instances of different classes with one identity are not equal.
\<close>

theorem Node_eq_class_and_identity:
  "(Node_eq n1 n2 \<longleftrightarrow> node_cls n1 = node_cls n2 \<and> node_str n1 = node_str n2) \<and>
   Node_eq n1 n1 \<and>
   (Node_eq n1 n2 \<longrightarrow> Node_eq n2 n1) \<and>
   (Node_eq n1 n2 \<and> Node_eq n2 n3 \<longrightarrow> Node_eq n1 n3) \<and>
   (node_cls n1 \<noteq> node_cls n2 \<and> node_str n1 = node_str n2 \<longrightarrow> \<not> Node_eq n1 n2)"
  by (auto simp: Node_eq_def)

theorem Node_eq_class_and_identity_witness:
  "Node_eq duck (duck\<lparr>dependnode := 7\<rparr>) \<and> Node_eq (duck\<lparr>dependnode := 7\<rparr>) duck \<and>
   \<not> Node_eq duck (duck\<lparr>node_cls := Rig\<rparr>)"
proof -
  have a: "node_cls duck = node_cls (duck\<lparr>dependnode := 7\<rparr>)"
    "node_str duck = node_str (duck\<lparr>dependnode := 7\<rparr>)"
    by simp_all
  have b: "node_cls duck \<noteq> node_cls (duck\<lparr>node_cls := Rig\<rparr>)"
    "node_str duck = node_str (duck\<lparr>node_cls := Rig\<rparr>)"
    by (simp_all add: duck_def System_def Rig_def)
  show ?thesis
    using Node_eq_class_and_identity[of duck "duck\<lparr>dependnode := 7\<rparr>" duck]
      Node_eq_class_and_identity[of duck "duck\<lparr>node_cls := Rig\<rparr>" duck] a b
    by blast
qed




text \<open>
  C9 (as amended). Constructing a \<open>Node\<close> or a \<open>System\<close> from a string (a name or an
  identity) that resolves to no existing node returns \<open>None\<close>, and from a string it
  never raises; an instance is returned only when the referenced node exists at
  construction time, and then it is bound to that node, its class is the class called
  and its value is the identity of the node; a reference that resolves to an existing
  node gives an instance. An object reference is used as passed, without a check that
  its node exists.
\<close>

theorem Node_new_cases:
  "(\<forall>s. v = Str s \<and> name_to_node sc s = None \<longrightarrow> Node_new cls v sc = Inr None) \<and>
   (\<forall>s e. v = Str s \<longrightarrow> Node_new cls v sc \<noteq> Inl e) \<and>
   (\<forall>n. Node_new cls v sc = Inr (Some n) \<longrightarrow>
      resolve sc v = Some (dependnode n) \<and> om_isValid sc (dependnode n) \<and>
      node_cls n = cls \<and> om_uuid sc (node_fn n) = Inr (node_str n) \<and>
      fn_object (node_fn n) = dependnode n) \<and>
   (\<forall>m. resolve sc v = Some m \<and> om_isValid sc m \<longrightarrow> (\<exists>n. Node_new cls v sc = Inr (Some n)))"
proof (intro conjI allI impI)
  fix s e assume "v = Str s"
  show "Node_new cls v sc \<noteq> Inl e"
  proof (cases "name_to_node sc s")
    case None
    then show ?thesis using \<open>v = Str s\<close> by (simp add: Node_new_none resolve_def)
  next
    case (Some m)
    with name_to_node_live[OF Some] obtain nd where "map_of (sc_nodes sc) m = Some nd"
      by (auto simp: om_isValid_def)
    with Some \<open>v = Str s\<close> show ?thesis by (simp add: Node_new_live resolve_def)
  qed
next
  fix n assume a: "Node_new cls v sc = Inr (Some n)"
  then obtain m where m: "resolve sc v = Some m"
    by (cases "resolve sc v") (auto simp: Node_new_none)
  with a obtain nd where nd: "map_of (sc_nodes sc) m = Some nd"
    by (cases "map_of (sc_nodes sc) m") (auto simp: Node_new_dead)
  from a show "resolve sc v = Some (dependnode n)" "om_isValid sc (dependnode n)"
    "node_cls n = cls" "om_uuid sc (node_fn n) = Inr (node_str n)"
    "fn_object (node_fn n) = dependnode n"
    using m nd by (auto simp: Node_new_live om_isValid_def om_uuid_def om_node_def ebind_def)
next
  fix m assume "resolve sc v = Some m \<and> om_isValid sc m"
  then show "\<exists>n. Node_new cls v sc = Inr (Some n)"
    by (auto simp: om_isValid_def Node_new_live)
qed (simp add: Node_new_none resolve_def)

theorem Node_new_cases_witness:
  "Node_new Rig (Str ''goose'') example_scene = Inr None \<and>
   Node_new Rig (Str ''ns:arm'') example_scene = Inr (Some arm) \<and>
   Node_new Rig (Obj 4) example_scene = Inr (Some arm) \<and>
   om_isValid example_scene (dependnode arm)"
proof -
  have a: "name_to_node example_scene ''goose'' = None"
    by (simp add: resolve_defs example_defs)
  have b: "Node_new Rig (Str ''ns:arm'') example_scene = Inr (Some arm)"
    "Node_new Rig (Obj 4) example_scene = Inr (Some arm)"
    by (simp_all add: Node_new_def resolve_defs example_defs om_hasObj_def om_setObject_def
        om_node_def om_uuid_def ebind_def)
  have c: "resolve example_scene (Obj 4) = Some 4 \<and> om_isValid example_scene 4"
    by (simp add: resolve_defs example_defs)
  from Node_new_cases[of "Str ''goose''" example_scene Rig] a
  have "Node_new Rig (Str ''goose'') example_scene = Inr None" by simp
  moreover from Node_new_cases[of "Str ''ns:arm''" example_scene Rig] b(1)
  have "om_isValid example_scene (dependnode arm)" by simp
  moreover from Node_new_cases[of "Obj 4" example_scene Rig] c
  have "\<exists>n. Node_new Rig (Obj 4) example_scene = Inr (Some n)" by blast
  ultimately show ?thesis using b by simp
qed

text \<open>
  The claim as stated fails for a reference to an object that was deleted:
  construction goes on to the function set and does not return \<open>None\<close>.
\<close>

theorem Node_new_deleted_object_counterexample:
  "om_isValid example_scene 1 \<and>
   \<not> om_isValid (snd (cmds_delete ''duck'' example_scene)) 1 \<and>
   Node_new System (Obj 1) (snd (cmds_delete ''duck'' example_scene)) \<noteq> Inr None"
  by (simp add: om_isValid_def cmds_delete_def obj_of_name_def example_scene_def
      transform_node_def Node_new_def resolve_def om_setObject_def om_hasObj_def
      om_node_def ebind_def)

text \<open>
  C10. For a live \<open>Node\<close> whose current name has no namespace prefix, assigning any
  value to \<open>namespace\<close> returns without an operation on the scene: the scene after
  the assignment is the scene before it.
\<close>

theorem namespace_setter_noop:
  assumes "Node_get_name n sc = Inr name" and "sep \<notin> set name"
  shows "Node_namespace_setter n v sc = (Inr (), sc)"
  using namespace_of_name[OF assms(1)] ns_of_no_sep[OF assms(2)]
  by (simp add: Node_namespace_setter_def bnd_def rd_def ret_def)

theorem namespace_setter_noop_witness:
  "Node_get_name duck example_scene = Inr ''duck'' \<and> sep \<notin> set ''duck'' \<and>
   Node_namespace_setter duck ''ns'' example_scene = (Inr (), example_scene) \<and>
   Node_namespace_setter duck [] example_scene = (Inr (), example_scene)"
proof -
  have a: "Node_get_name duck example_scene = Inr ''duck''"
    by (simp add: Node_get_name_def Node_fn_def om_isValid_def om_partialPathName_def
        om_node_def ebind_def example_defs)
  have b: "sep \<notin> set ''duck''" by (simp add: sep_def)
  show ?thesis
    using namespace_setter_noop[OF a b, of "''ns''"] namespace_setter_noop[OF a b, of "[]"] a b
    by simp
qed

text \<open>
  C3 (as amended). For every \<open>Node\<close>, after the wrapped node has been deleted (or
  never existed), \<open>name\<close>, \<open>namespace\<close>, \<open>nodename\<close>, \<open>type\<close>, \<open>delete\<close> and
  \<open>export\<close> raise the stale-reference failure, a \<open>RuntimeError\<close> whose message names
  the class and the identity, and leave the scene as it is; while the node is live
  none of them raises it; and a \<open>delete\<close> that returns leaves the node deleted. For
  \<open>export\<close> this is so when the options name neither \<open>self\<close> nor \<open>filename\<close>: options
  that do are a \<open>TypeError\<close> of the call itself, on a live node and on a deleted one.
\<close>

theorem stale_reference_raised:
  "(\<not> om_isValid sc (dependnode n) \<longrightarrow>
      Node_get_name n sc = Inl (RuntimeError (stale_msg n)) \<and>
      Node_namespace n sc = Inl (RuntimeError (stale_msg n)) \<and>
      Node_nodename n sc = Inl (RuntimeError (stale_msg n)) \<and>
      System_type n sc = Inl (RuntimeError (stale_msg n)) \<and>
      Node_delete n sc = (Inl (RuntimeError (stale_msg n)), sc) \<and>
      (kw ''self'' = None \<and> kw ''filename'' = None \<longrightarrow>
         Node_export n p kw sc = (Inl (RuntimeError (stale_msg n)), sc))) \<and>
   (kw ''self'' \<noteq> None \<or> kw ''filename'' \<noteq> None \<longrightarrow>
      Node_export n p kw sc = (Inl TypeError, sc)) \<and>
   (om_isValid sc (dependnode n) \<longrightarrow>
      Node_get_name n sc \<noteq> Inl (RuntimeError (stale_msg n)) \<and>
      Node_namespace n sc \<noteq> Inl (RuntimeError (stale_msg n)) \<and>
      Node_nodename n sc \<noteq> Inl (RuntimeError (stale_msg n)) \<and>
      System_type n sc \<noteq> Inl (RuntimeError (stale_msg n)) \<and>
      fst (Node_delete n sc) \<noteq> Inl (RuntimeError (stale_msg n)) \<and>
      fst (Node_export n p kw sc) \<noteq> Inl (RuntimeError (stale_msg n))) \<and>
   (distinct (node_names sc) \<and> fn_object (node_fn n) = dependnode n \<and>
    fst (Node_delete n sc) = Inr () \<longrightarrow>
      \<not> om_isValid (snd (Node_delete n sc)) (dependnode n)) \<and>
   stale_msg n =
     ''Invalid depend node. '' @ cls_name (node_cls n) @ ''('' @ node_str n @ '') not found''"
proof (intro conjI impI)
  assume v: "om_isValid sc (dependnode n)"
  show "Node_get_name n sc \<noteq> Inl (RuntimeError (stale_msg n))"
    using live_get_name[OF v] foreign_not_stale by blast
  show "Node_namespace n sc \<noteq> Inl (RuntimeError (stale_msg n))"
    using live_namespace[OF v] foreign_not_stale by blast
  show "Node_nodename n sc \<noteq> Inl (RuntimeError (stale_msg n))"
    using live_nodename[OF v] foreign_not_stale by blast
  show "System_type n sc \<noteq> Inl (RuntimeError (stale_msg n))"
    using live_type[OF v] foreign_not_stale by blast
  show "fst (Node_delete n sc) \<noteq> Inl (RuntimeError (stale_msg n))"
    using live_delete[OF v] foreign_not_stale by (cases "Node_delete n sc") force
  show "fst (Node_export n p kw sc) \<noteq> Inl (RuntimeError (stale_msg n))"
    using live_export[OF v, of p kw] foreign_not_stale[of _ n]
    by (cases "Node_export n p kw sc") force
next
  assume "distinct (node_names sc) \<and> fn_object (node_fn n) = dependnode n \<and>
    fst (Node_delete n sc) = Inr ()"
  then show "\<not> om_isValid (snd (Node_delete n sc)) (dependnode n)"
    using delete_kills by blast
next
  assume "\<not> om_isValid sc (dependnode n)" "kw ''self'' = None \<and> kw ''filename'' = None"
  then show "Node_export n p kw sc = (Inl (RuntimeError (stale_msg n)), sc)"
    by (simp add: stale_export)
next
  assume "kw ''self'' \<noteq> None \<or> kw ''filename'' \<noteq> None"
  then show "Node_export n p kw sc = (Inl TypeError, sc)"
    by (rule export_own_parameter)
qed (simp_all add: stale_reads stale_delete stale_msg_def)

theorem stale_reference_raised_witness:
  "om_isValid example_scene (dependnode duck) \<and>
   Node_get_name duck example_scene \<noteq> Inl (RuntimeError (stale_msg duck)) \<and>
   fst (Node_delete duck example_scene) = Inr () \<and>
   \<not> om_isValid (snd (Node_delete duck example_scene)) (dependnode duck) \<and>
   Node_get_name duck (snd (Node_delete duck example_scene))
     = Inl (RuntimeError ''Invalid depend node. System(u1) not found'') \<and>
   System_type duck (snd (Node_delete duck example_scene))
     = Inl (RuntimeError ''Invalid depend node. System(u1) not found'') \<and>
   Node_export duck ''out.ma'' Map.empty (snd (Node_delete duck example_scene))
     = (Inl (RuntimeError ''Invalid depend node. System(u1) not found''),
        snd (Node_delete duck example_scene)) \<and>
   Node_export duck ''out.ma'' [''filename'' \<mapsto> PyStr ''x.ma''] example_scene
     = (Inl TypeError, example_scene) \<and>
   \<not> om_isValid example_scene (dependnode (duck\<lparr>dependnode := 9\<rparr>)) \<and>
   Node_get_name (duck\<lparr>dependnode := 9\<rparr>) example_scene
     = Inl (RuntimeError ''Invalid depend node. System(u1) not found'')"
proof -
  have v: "om_isValid example_scene (dependnode duck)"
    by (simp add: om_isValid_def example_defs)
  have d: "distinct (node_names example_scene)"
    by (simp add: node_names_def example_defs)
  have w: "fn_object (node_fn duck) = dependnode duck"
    by (simp add: duck_def)
  have ok: "fst (Node_delete duck example_scene) = Inr ()"
    by (simp add: duck_deleted)
  have m: "stale_msg duck = ''Invalid depend node. System(u1) not found''"
    "stale_msg (duck\<lparr>dependnode := 9\<rparr>) = ''Invalid depend node. System(u1) not found''"
    by (simp_all add: stale_msg_def duck_def System_def)
  have k: "(Map.empty :: string \<rightharpoonup> pyval) ''self'' = None"
    "(Map.empty :: string \<rightharpoonup> pyval) ''filename'' = None"
    "[''filename'' \<mapsto> PyStr ''x.ma''] ''filename'' \<noteq> None"
    by simp_all
  have nv: "\<not> om_isValid example_scene (dependnode (duck\<lparr>dependnode := 9\<rparr>))"
    by (simp add: om_isValid_def example_defs)
  from stale_reference_raised[of example_scene duck Map.empty "''out.ma''"] v d w ok
  have dead: "\<not> om_isValid (snd (Node_delete duck example_scene)) (dependnode duck)"
    and live: "Node_get_name duck example_scene \<noteq> Inl (RuntimeError (stale_msg duck))"
    by blast+
  from stale_reference_raised[of "snd (Node_delete duck example_scene)" duck Map.empty
      "''out.ma''"] dead m k
  have 1: "Node_get_name duck (snd (Node_delete duck example_scene))
     = Inl (RuntimeError ''Invalid depend node. System(u1) not found'') \<and>
   System_type duck (snd (Node_delete duck example_scene))
     = Inl (RuntimeError ''Invalid depend node. System(u1) not found'') \<and>
   Node_export duck ''out.ma'' Map.empty (snd (Node_delete duck example_scene))
     = (Inl (RuntimeError ''Invalid depend node. System(u1) not found''),
        snd (Node_delete duck example_scene))"
    by simp
  from stale_reference_raised[of example_scene duck "[''filename'' \<mapsto> PyStr ''x.ma'']"
      "''out.ma''"] k
  have 2: "Node_export duck ''out.ma'' [''filename'' \<mapsto> PyStr ''x.ma''] example_scene
     = (Inl TypeError, example_scene)"
    by blast
  from stale_reference_raised[of example_scene "duck\<lparr>dependnode := 9\<rparr>" Map.empty "''out.ma''"]
    nv m
  have 3: "Node_get_name (duck\<lparr>dependnode := 9\<rparr>) example_scene
     = Inl (RuntimeError ''Invalid depend node. System(u1) not found'')"
    by simp
  from v ok live dead 1 2 3 nv show ?thesis by simp
qed

text \<open>
  The claim as stated fails in the class of the error: the source raises
  \<open>RuntimeError\<close>, which is not a \<open>ReferenceError\<close>. And \<open>export\<close> on the deleted
  node, with an option named \<open>filename\<close>, fails in the call before the stale
  reference is met.
\<close>

theorem stale_reference_not_ReferenceError_counterexample:
  "Node_get_name duck (snd (Node_delete duck example_scene))
     = Inl (RuntimeError ''Invalid depend node. System(u1) not found'') \<and>
   Node_get_name duck (snd (Node_delete duck example_scene))
     \<noteq> Inl (ReferenceError ''Invalid depend node. System(u1) not found'') \<and>
   fst (Node_export duck ''out.ma'' [''filename'' \<mapsto> PyStr ''x.ma'']
          (snd (Node_delete duck example_scene)))
     = Inl TypeError"
  unfolding duck_deleted snd_conv
  by (simp add: node_read_defs stale_msg_def example_defs Node_export_def KeepSel_def raise_def)

text \<open>
  C8. \<open>n.export(p, **options)\<close> leaves the selection as it was before the call, on
  every exit path, a failure included. For a live node, when the options name none of
  \<open>es\<close>, \<open>self\<close> and \<open>filename\<close>, the export succeeds: the file is written with the
  node as the selection, under the options \<open>{pr: 1, typ: mayaAscii}\<close> overridden by the
  caller's options, and nothing else changes in the scene. Options that name \<open>self\<close>
  or \<open>filename\<close> are a \<open>TypeError\<close> of the call, which leaves the scene as it is.
\<close>

theorem export_keeps_selection:
  "sc_selection (snd (Node_export n p kw sc)) = sc_selection sc \<and>
   (\<forall>name. Node_get_name n sc = Inr name \<and> kw ''es'' = None \<and>
       kw ''self'' = None \<and> kw ''filename'' = None \<longrightarrow>
      (\<exists>m. obj_of_name sc name = Some m \<and>
         Node_export n p kw sc =
           (Inr (), sc\<lparr>sc_files := sc_files sc @
              [(p, (export_defaults ++ kw)(''es'' \<mapsto> PyBool True), [m])]\<rparr>))) \<and>
   (kw ''self'' \<noteq> None \<or> kw ''filename'' \<noteq> None \<longrightarrow>
      Node_export n p kw sc = (Inl TypeError, sc)) \<and>
   (\<forall>k. (export_defaults ++ kw) k = (case kw k of Some v \<Rightarrow> Some v | None \<Rightarrow> export_defaults k)) \<and>
   export_defaults = [''pr'' \<mapsto> PyInt 1, ''typ'' \<mapsto> PyStr ''mayaAscii'']"
proof (intro conjI allI impI)
  fix name assume a: "Node_get_name n sc = Inr name \<and> kw ''es'' = None \<and>
       kw ''self'' = None \<and> kw ''filename'' = None"
  then obtain m where m: "obj_of_name sc name = Some m" using get_name_obj by blast
  with a export_live[of n sc name kw m p]
  show "\<exists>m. obj_of_name sc name = Some m \<and>
         Node_export n p kw sc =
           (Inr (), sc\<lparr>sc_files := sc_files sc @
              [(p, (export_defaults ++ kw)(''es'' \<mapsto> PyBool True), [m])]\<rparr>)"
    by blast
next
  assume "kw ''self'' \<noteq> None \<or> kw ''filename'' \<noteq> None"
  then show "Node_export n p kw sc = (Inl TypeError, sc)"
    by (rule export_own_parameter)
qed (simp_all add: export_selection map_add_def export_defaults_def split: option.splits)

theorem export_keeps_selection_witness:
  "sc_selection example_scene = [2] \<and>
   Node_export duck ''out.ma'' [''typ'' \<mapsto> PyStr ''mayaBinary''] example_scene =
     (Inr (), example_scene\<lparr>sc_files :=
        [(''out.ma'',
          (export_defaults ++ [''typ'' \<mapsto> PyStr ''mayaBinary''])(''es'' \<mapsto> PyBool True),
          [1])]\<rparr>) \<and>
   (export_defaults ++ [''typ'' \<mapsto> PyStr ''mayaBinary'']) ''typ'' = Some (PyStr ''mayaBinary'') \<and>
   (export_defaults ++ [''typ'' \<mapsto> PyStr ''mayaBinary'']) ''pr'' = Some (PyInt 1) \<and>
   fst (Node_export duck ''out.ma'' [''es'' \<mapsto> PyBool False] example_scene) = Inl TypeError \<and>
   sc_selection (snd (Node_export duck ''out.ma'' [''es'' \<mapsto> PyBool False] example_scene)) = [2] \<and>
   Node_export duck ''out.ma'' [''filename'' \<mapsto> PyStr ''x.ma''] example_scene
     = (Inl TypeError, example_scene)"
proof -
  have a: "Node_get_name duck example_scene = Inr ''duck''"
    by (simp add: node_read_defs example_defs)
  have b: "obj_of_name example_scene ''duck'' = Some 1"
    by (simp add: obj_of_name_def example_defs)
  have c: "[''typ'' \<mapsto> PyStr ''mayaBinary''] ''es'' = None"
    "[''typ'' \<mapsto> PyStr ''mayaBinary''] ''self'' = None"
    "[''typ'' \<mapsto> PyStr ''mayaBinary''] ''filename'' = None"
    "[''filename'' \<mapsto> PyStr ''x.ma''] ''filename'' \<noteq> None"
    by simp_all
  have s: "sc_selection example_scene = [2]" "sc_files example_scene = []"
    by (simp_all add: example_scene_def)
  have f: "fst (Node_export duck ''out.ma'' [''es'' \<mapsto> PyBool False] example_scene)
     = Inl TypeError"
    using a b
    by (simp add: Node_export_def Node_export_body_def KeepSel_def bnd_def rd_def raise_def
        cmds_select_def export_defaults_def split: prod.splits)
  from export_keeps_selection[of duck "''out.ma''" "[''typ'' \<mapsto> PyStr ''mayaBinary'']" example_scene]
    a b c s
  have 1: "Node_export duck ''out.ma'' [''typ'' \<mapsto> PyStr ''mayaBinary''] example_scene =
     (Inr (), example_scene\<lparr>sc_files :=
        [(''out.ma'',
          (export_defaults ++ [''typ'' \<mapsto> PyStr ''mayaBinary''])(''es'' \<mapsto> PyBool True),
          [1])]\<rparr>)"
    by auto
  have 2: "(export_defaults ++ [''typ'' \<mapsto> PyStr ''mayaBinary'']) ''typ''
              = Some (PyStr ''mayaBinary'')"
    and 3: "(export_defaults ++ [''typ'' \<mapsto> PyStr ''mayaBinary'']) ''pr'' = Some (PyInt 1)"
    by (simp_all add: export_defaults_def)
  from export_keeps_selection[of duck "''out.ma''" "[''es'' \<mapsto> PyBool False]" example_scene] s
  have 4: "sc_selection (snd (Node_export duck ''out.ma'' [''es'' \<mapsto> PyBool False] example_scene))
             = [2]"
    by simp
  from export_keeps_selection[of duck "''out.ma''" "[''filename'' \<mapsto> PyStr ''x.ma'']"
      example_scene] c(4)
  have 5: "Node_export duck ''out.ma'' [''filename'' \<mapsto> PyStr ''x.ma''] example_scene
     = (Inl TypeError, example_scene)"
    by blast
  from 1 2 3 4 5 f s show ?thesis by simp
qed

text \<open>
  C7. For every class \<open>C\<close>, \<open>C.create(name, parent)\<close> of \<open>System\<close>, with the parent
  omitted or naming an existing node, returns an instance of \<open>C\<close> bound to a node that
  did not exist before and is added to the scene: the node has the type \<open>C._NODETYPE\<close>;
  the name asked for is the node type when no name is given, the name with
  \<open>C.DEFAULT_NAME\<close> appended when it ends with the separator, and the name itself
  otherwise, and the node has that name unless it is taken; its name and its identity
  are those of no node that existed; the attribute \<open>system_type\<close> exists on the node
  and holds the name of \<open>C\<close>.
\<close>

theorem System_create_tags_node:
  assumes "parent = None \<or> (\<exists>p. parent = Some p \<and> cmds_ls p sc \<noteq> [])"
  shows "(\<exists>n nd sc'. System_create C name parent sc = (Inr (Some n), sc') \<and>
     node_cls n = C \<and> \<not> om_isValid sc (dependnode n) \<and>
     sc_nodes sc' = (dependnode n, nd) # sc_nodes sc \<and>
     nd_type nd = cls_NODETYPE C \<and> nd_uuid nd = node_str n \<and>
     nd_name nd = new_name sc (requested_name C name) \<and>
     nd_name nd \<notin> set (node_names sc @ node_uuids sc) \<and>
     node_str n \<notin> set (node_names sc @ node_uuids sc) \<and>
     (requested_name C name \<notin> set (new_uuid sc # node_names sc @ node_uuids sc) \<longrightarrow>
        nd_name nd = requested_name C name) \<and>
     nd_attrs nd SYSTEM_TYPE_ATTR_NAME = Some (cls_name C) \<and>
     System_type n sc' = Inr (cls_name C) \<and> Node_get_name n sc' = Inr (nd_name nd)) \<and>
   ((name = None \<or> name = Some []) \<and> (cls_NODETYPE C = [] \<or> last (cls_NODETYPE C) \<noteq> sep) \<longrightarrow>
      requested_name C name = cls_NODETYPE C) \<and>
   (\<forall>s. name = Some s \<and> s \<noteq> [] \<and> last s = sep \<longrightarrow>
      requested_name C name = s @ cls_DEFAULT_NAME C) \<and>
   (\<forall>s. name = Some s \<and> s \<noteq> [] \<and> last s \<noteq> sep \<longrightarrow> requested_name C name = s)"
proof (intro conjI)
  from System_create_ok[OF assms, of C name] obtain nd sc' where
    c: "System_create C name parent sc =
      (Inr (Some \<lparr>node_cls = C, node_str = nd_uuid nd, dependnode = fresh_handle sc,
         node_fn = (if nd_dag nd then MFnDagNode (fresh_handle sc)
                    else MFnDependencyNode (fresh_handle sc))\<rparr>), sc')"
    and h: "sc_nodes sc' = (fresh_handle sc, nd) # sc_nodes sc"
    and f: "nd_type nd = cls_NODETYPE C" "nd_name nd = new_name sc (requested_name C name)"
      "nd_attrs nd = [SYSTEM_TYPE_ATTR_NAME \<mapsto> cls_name C]"
    and i: "nd_uuid nd = new_uuid sc"
    by blast
  let ?n = "\<lparr>node_cls = C, node_str = nd_uuid nd, dependnode = fresh_handle sc,
         node_fn = (if nd_dag nd then MFnDagNode (fresh_handle sc)
                    else MFnDependencyNode (fresh_handle sc))\<rparr>"
  have t: "System_type ?n sc' = Inr (cls_name C)"
    by (rule head_type[OF h]) (simp_all add: f)
  have g: "Node_get_name ?n sc' = Inr (nd_name nd)"
    by (rule head_get_name[OF h]) simp_all
  have u: "requested_name C name \<notin> set (new_uuid sc # node_names sc @ node_uuids sc) \<longrightarrow>
        nd_name nd = requested_name C name"
    using f(2) by (simp add: new_name_def fresh_string_unused)
  have w: "nd_name nd \<notin> set (node_names sc @ node_uuids sc)"
    "node_str ?n \<notin> set (node_names sc @ node_uuids sc)"
    using new_name_fresh[of sc "requested_name C name"] new_uuid_fresh[of sc] f(2) i by simp_all
  have v: "\<not> om_isValid sc (dependnode ?n)"
    using fresh_handle_new[of sc] by (simp add: om_isValid_def)
  show "\<exists>n nd sc'. System_create C name parent sc = (Inr (Some n), sc') \<and>
     node_cls n = C \<and> \<not> om_isValid sc (dependnode n) \<and>
     sc_nodes sc' = (dependnode n, nd) # sc_nodes sc \<and>
     nd_type nd = cls_NODETYPE C \<and> nd_uuid nd = node_str n \<and>
     nd_name nd = new_name sc (requested_name C name) \<and>
     nd_name nd \<notin> set (node_names sc @ node_uuids sc) \<and>
     node_str n \<notin> set (node_names sc @ node_uuids sc) \<and>
     (requested_name C name \<notin> set (new_uuid sc # node_names sc @ node_uuids sc) \<longrightarrow>
        nd_name nd = requested_name C name) \<and>
     nd_attrs nd SYSTEM_TYPE_ATTR_NAME = Some (cls_name C) \<and>
     System_type n sc' = Inr (cls_name C) \<and> Node_get_name n sc' = Inr (nd_name nd)"
    using c h f t g u v w
    by (intro exI[of _ ?n] exI[of _ nd] exI[of _ sc']) simp
qed (auto simp: requested_name_def)

theorem System_create_tags_node_witness:
  "System_create System (Some ''duck'') None empty_scene = (Inr (Some created_duck), duck_scene) \<and>
   sc_nodes duck_scene =
     [(1, transform_node ''uuid'' ''duck'' [''system_type'' \<mapsto> ''System''])] \<and>
   System_type created_duck duck_scene = Inr ''System'' \<and>
   Node_get_name created_duck duck_scene = Inr ''duck'' \<and>
   requested_name Rig None = ''joint'' \<and>
   requested_name Rig (Some ''ns:'') = ''ns:rig'' \<and>
   (\<exists>n nd sc'. System_create Rig (Some ''ns:'') (Some ''duck'') duck_scene = (Inr (Some n), sc') \<and>
      node_cls n = Rig \<and> nd_type nd = ''joint'' \<and> nd_name nd = ''ns:rig'' \<and>
      sc_nodes sc' = (dependnode n, nd) # sc_nodes duck_scene \<and>
      System_type n sc' = Inr ''Rig'')"
proof -
  have p: "(None::string option) = None \<or>
      (\<exists>p. (None::string option) = Some p \<and> cmds_ls p empty_scene \<noteq> [])"
    by simp
  from System_create_tags_node[OF p, of System "Some ''duck''"] duck_created
  have 1: "System_type created_duck duck_scene = Inr ''System''"
    and 2: "Node_get_name created_duck duck_scene = Inr ''duck''"
    by (auto simp: System_def duck_scene_def transform_node_def)
  have q: "Some ''duck'' = None \<or>
      (\<exists>p. Some ''duck'' = Some p \<and> cmds_ls p duck_scene \<noteq> [])"
    by (simp add: cmds_ls_def duck_scene_def transform_node_def)
  have r: "requested_name Rig None = ''joint''" "requested_name Rig (Some ''ns:'') = ''ns:rig''"
    by (simp_all add: requested_name_def Rig_def sep_def)
  have u: "new_name duck_scene ''ns:rig'' = ''ns:rig''"
    by (simp add: new_name_def new_uuid_def fresh_string_def node_names_def node_uuids_def
        duck_scene_def transform_node_def)
  from System_create_tags_node[OF q, of Rig "Some ''ns:''"] r u
  have 3: "\<exists>n nd sc'. System_create Rig (Some ''ns:'') (Some ''duck'') duck_scene
        = (Inr (Some n), sc') \<and>
      node_cls n = Rig \<and> nd_type nd = ''joint'' \<and> nd_name nd = ''ns:rig'' \<and>
      sc_nodes sc' = (dependnode n, nd) # sc_nodes duck_scene \<and>
      System_type n sc' = Inr ''Rig''"
    by (auto simp: Rig_def)
  have 4: "sc_nodes duck_scene =
     [(1, transform_node ''uuid'' ''duck'' [''system_type'' \<mapsto> ''System''])]"
    by (simp add: duck_scene_def)
  from duck_created 1 2 3 4 r show ?thesis by simp
qed

text \<open>
  C6. For a node \<open>n\<close> created through a registered class \<open>C\<close>, \<open>Factory.get_system\<close>
  applied to the identity of \<open>n\<close> returns an instance of \<open>C\<close> bound to that identity,
  equal to \<open>n\<close>. The same holds for the node that \<open>deserialize\<close> creates for the class
  found under the serialized type name, whose class is the class of the serialized
  node; and in any scene where the identity resolves to a node that carries the
  identity and the tag of a registered class. When \<open>get_system_class\<close> yields no
  class, \<open>get_system\<close> returns \<open>None\<close>.
\<close>

theorem get_system_roundtrip:
  "(f (cls_name C) = Some C \<and> System_create C name parent sc = (Inr (Some n), sc') \<longrightarrow>
      (\<exists>n'. Factory_get_system f (Str (node_str n)) sc' = Inr (Some n') \<and> Node_eq n n' \<and>
            node_cls n' = C \<and> node_str n' = node_str n \<and> dependnode n' = dependnode n)) \<and>
   (f (cls_name C) = Some C \<and> cls_is_system C \<and> node_cls n0 = C \<and>
    Node_serialize n0 sc0 = Inr d \<and> map_of d ''type'' = Some ty \<and> f ty = Some C' \<and>
    Node_deserialize C' name parent sc = (Inr (Some n), sc') \<longrightarrow>
      node_cls n = node_cls n0 \<and>
      (\<exists>n'. Factory_get_system f (Str (node_str n)) sc' = Inr (Some n') \<and> Node_eq n n' \<and>
            node_cls n' = node_cls n0)) \<and>
   (name_to_node sc (node_str n) = Some m \<and> map_of (sc_nodes sc) m = Some nd \<and>
    nd_uuid nd = node_str n \<and>
    nd_attrs nd SYSTEM_TYPE_ATTR_NAME = Some (cls_name (node_cls n)) \<and>
    f (cls_name (node_cls n)) = Some (node_cls n) \<longrightarrow>
      (\<exists>n'. Factory_get_system f (Str (node_str n)) sc = Inr (Some n') \<and> Node_eq n n')) \<and>
   (Factory_get_system_class f obj sc = Inr None \<longrightarrow> Factory_get_system f obj sc = Inr None)"
proof (intro conjI impI)
  assume "f (cls_name C) = Some C \<and> System_create C name parent sc = (Inr (Some n), sc')"
  then show "\<exists>n'. Factory_get_system f (Str (node_str n)) sc' = Inr (Some n') \<and> Node_eq n n' \<and>
            node_cls n' = C \<and> node_str n' = node_str n \<and> dependnode n' = dependnode n"
    using created_resolves[of C name parent sc n sc' f] by (auto simp: Node_eq_def)
next
  assume a: "f (cls_name C) = Some C \<and> cls_is_system C \<and> node_cls n0 = C \<and>
    Node_serialize n0 sc0 = Inr d \<and> map_of d ''type'' = Some ty \<and> f ty = Some C' \<and>
    Node_deserialize C' name parent sc = (Inr (Some n), sc')"
  then have "d = [(''type'', cls_name C)]" using serialize_type[of n0 sc0 d] by simp
  with a have "ty = cls_name C" by simp
  with a have "C' = C" by auto
  with a have c: "System_create C name parent sc = (Inr (Some n), sc')"
    by (auto simp: Node_deserialize_def)
  from created_resolves[OF c, of f] a
  show "node_cls n = node_cls n0" 
    "\<exists>n'. Factory_get_system f (Str (node_str n)) sc' = Inr (Some n') \<and> Node_eq n n' \<and>
            node_cls n' = node_cls n0"
    by (auto simp: Node_eq_def)
next
  assume "name_to_node sc (node_str n) = Some m \<and> map_of (sc_nodes sc) m = Some nd \<and>
    nd_uuid nd = node_str n \<and>
    nd_attrs nd SYSTEM_TYPE_ATTR_NAME = Some (cls_name (node_cls n)) \<and>
    f (cls_name (node_cls n)) = Some (node_cls n)"
  then show "\<exists>n'. Factory_get_system f (Str (node_str n)) sc = Inr (Some n') \<and> Node_eq n n'"
    using get_system_resolves[of sc n m nd f] by blast
next
  assume "Factory_get_system_class f obj sc = Inr None"
  then show "Factory_get_system f obj sc = Inr None"
    by (simp add: Factory_get_system_def ebind_def)
qed

theorem get_system_roundtrip_witness:
  "factory (cls_name System) = Some System \<and>
   System_create System (Some ''duck'') None empty_scene = (Inr (Some created_duck), duck_scene) \<and>
   (\<exists>n'. Factory_get_system factory (Str (node_str created_duck)) duck_scene = Inr (Some n') \<and>
      Node_eq created_duck n' \<and> node_cls n' = System) \<and>
   Node_serialize created_duck duck_scene = Inr [(''type'', ''System'')] \<and>
   (\<exists>n sc'. Node_deserialize System (Some ''duck'') None duck_scene = (Inr (Some n), sc') \<and>
      node_cls n = System \<and>
      (\<exists>n'. Factory_get_system factory (Str (node_str n)) sc' = Inr (Some n') \<and> Node_eq n n')) \<and>
   Factory_get_system factory (Str ''goose'') duck_scene = Inr None"
proof -
  have f: "factory (cls_name System) = Some System" "factory ''System'' = Some System"
    "cls_is_system System" "node_cls created_duck = System"
    by (simp_all add: factory_def Factory_init_def System_def created_duck_def)
  have s: "Node_serialize created_duck duck_scene = Inr [(''type'', ''System'')]"
    by (simp add: Node_serialize_def Node_repr_def Node_get_name_def Node_fn_def om_isValid_def
        om_partialPathName_def om_node_def ebind_def created_duck_def duck_scene_def
        transform_node_def System_def)
  have m: "map_of [(''type'', ''System'')] ''type'' = Some ''System''" by simp
  have p: "(None::string option) = None \<or>
      (\<exists>p. (None::string option) = Some p \<and> cmds_ls p duck_scene \<noteq> [])"
    by simp
  from System_create_ok[OF p, of System "Some ''duck''"] obtain n sc' where
    c: "System_create System (Some ''duck'') None duck_scene = (Inr (Some n), sc')"
    by blast
  then have d: "Node_deserialize System (Some ''duck'') None duck_scene = (Inr (Some n), sc')"
    using f(3) by (simp add: Node_deserialize_def)
  have g: "Factory_get_system_class factory (Str ''goose'') duck_scene = Inr None"
    by (simp add: Factory_get_system_class_def resolve_def name_to_node_def duck_scene_def
        transform_node_def)
  from get_system_roundtrip[where f = factory and C = System and name = "Some ''duck''"
      and parent = None and sc = empty_scene and n = created_duck and sc' = duck_scene]
    f duck_created
  have 1: "\<exists>n'. Factory_get_system factory (Str (node_str created_duck)) duck_scene
        = Inr (Some n') \<and> Node_eq created_duck n' \<and> node_cls n' = System"
    by blast
  have pre: "factory (cls_name System) = Some System \<and> cls_is_system System \<and>
      node_cls created_duck = System \<and>
      Node_serialize created_duck duck_scene = Inr [(''type'', ''System'')] \<and>
      map_of [(''type'', ''System'')] ''type'' = Some ''System'' \<and>
      factory ''System'' = Some System \<and>
      Node_deserialize System (Some ''duck'') None duck_scene = (Inr (Some n), sc')"
    using f s m d by simp
  have 2: "node_cls n = System \<and>
      (\<exists>n'. Factory_get_system factory (Str (node_str n)) sc' = Inr (Some n') \<and> Node_eq n n')"
    using get_system_roundtrip[where f = factory and C = System and name = "Some ''duck''"
      and parent = None and sc = duck_scene and n = n and sc' = sc' and ?n0.0 = created_duck
      and ?sc0.0 = duck_scene and d = "[(''type'', ''System'')]" and ty = "''System''"
      and C' = System, THEN conjunct2, THEN conjunct1, THEN mp, OF pre] f(4)
    by auto
  from get_system_roundtrip[where f = factory and sc = duck_scene and obj = "Str ''goose''"] g
  have 3: "Factory_get_system factory (Str ''goose'') duck_scene = Inr None"
    by blast
  from f duck_created 1 s d 2 3 show ?thesis by blast
qed

text \<open>
  C4. A rename of \<open>n\<close> changes nothing in the scene but names and namespaces, whether
  it returns or raises: the identity that the service holds for the node of \<open>n\<close>, the
  liveness of the node and the wrapper rebuilt from the object are the same after as
  before. The wrapper itself is an immutable \<open>str\<close> that the rename does not touch:
  its hash is the hash of its identity string, and its equality to another \<open>Node\<close>
  is decided by the two classes and the two identity strings. The rename is not idle:
  for a node without a namespace prefix and a new name that is free, it returns and
  the node has the new name.
\<close>

theorem rename_keeps_identity:
  "ids (snd (Node_rename n v sc)) = ids sc \<and>
   om_uuid (snd (Node_rename n v sc)) (node_fn n) = om_uuid sc (node_fn n) \<and>
   om_isValid (snd (Node_rename n v sc)) (dependnode n) = om_isValid sc (dependnode n) \<and>
   Node_new (node_cls n) (Obj (dependnode n)) (snd (Node_rename n v sc))
     = Node_new (node_cls n) (Obj (dependnode n)) sc \<and>
   Node_hash h n = h (node_str n) \<and>
   (\<forall>n'. node_str n' = node_str n \<longrightarrow> Node_hash h n' = Node_hash h n) \<and>
   (\<forall>other. Node_eq n other = (node_cls n = node_cls other \<and> node_str n = node_str other)) \<and>
   (\<forall>name. Node_get_name n sc = Inr name \<and> sep \<notin> set name \<and> v \<noteq> [] \<and> last v \<noteq> sep \<and>
      distinct (node_names sc) \<and> fn_object (node_fn n) = dependnode n \<and>
      v \<notin> set (node_names sc @ node_uuids sc) \<longrightarrow>
        fst (Node_rename n v sc) = Inr () \<and>
        Node_get_name n (snd (Node_rename n v sc)) = Inr v)"
proof (intro conjI allI impI)
  show "ids (snd (Node_rename n v sc)) = ids sc" by (rule ids_rename)
  show "om_uuid (snd (Node_rename n v sc)) (node_fn n) = om_uuid sc (node_fn n)"
    by (rule ids_uuid[OF ids_rename])
  show "om_isValid (snd (Node_rename n v sc)) (dependnode n) = om_isValid sc (dependnode n)"
    by (rule ids_isValid[OF ids_rename])
  show "Node_new (node_cls n) (Obj (dependnode n)) (snd (Node_rename n v sc))
     = Node_new (node_cls n) (Obj (dependnode n)) sc"
    by (rule ids_Node_new[OF ids_rename])
next
  fix name
  assume "Node_get_name n sc = Inr name \<and> sep \<notin> set name \<and> v \<noteq> [] \<and> last v \<noteq> sep \<and>
      distinct (node_names sc) \<and> fn_object (node_fn n) = dependnode n \<and>
      v \<notin> set (node_names sc @ node_uuids sc)"
  then have r: "fst (Node_rename n v sc) = Inr () \<and>
        Node_get_name n (snd (Node_rename n v sc)) = Inr v"
    using rename_simple[of n sc name v] by blast
  from r show "fst (Node_rename n v sc) = Inr ()" by simp
  from r show "Node_get_name n (snd (Node_rename n v sc)) = Inr v" by simp
qed (simp_all add: Node_hash_def Node_eq_def)

theorem rename_keeps_identity_witness:
  "Node_get_name duck example_scene = Inr ''duck'' \<and>
   fst (Node_rename duck ''goose'' example_scene) = Inr () \<and>
   Node_get_name duck (snd (Node_rename duck ''goose'' example_scene)) = Inr ''goose'' \<and>
   om_uuid (snd (Node_rename duck ''goose'' example_scene)) (node_fn duck) = Inr ''u1'' \<and>
   node_str duck = ''u1'' \<and>
   om_isValid (snd (Node_rename duck ''goose'' example_scene)) (dependnode duck) \<and>
   Node_new System (Obj 1) (snd (Node_rename duck ''goose'' example_scene)) = Inr (Some duck) \<and>
   Node_hash (\<lambda>s. int (length s)) duck = 2 \<and>
   Node_get_name arm example_scene = Inr ''ns:arm'' \<and>
   Node_get_name arm (snd (Node_rename arm ''other:hand'' example_scene)) = Inr ''other:hand'' \<and>
   om_uuid (snd (Node_rename arm ''other:hand'' example_scene)) (node_fn arm) = Inr ''u4'' \<and>
   node_str arm = ''u4''"
proof -
  have a: "Node_get_name duck example_scene = Inr ''duck''"
    "Node_get_name arm example_scene = Inr ''ns:arm''"
    by (simp_all add: node_read_defs example_defs)
  have b: "sep \<notin> set ''duck''" "''goose'' \<noteq> []" "last ''goose'' \<noteq> sep"
    by (simp_all add: sep_def)
  have c: "distinct (node_names example_scene)"
    "''goose'' \<notin> set (node_names example_scene @ node_uuids example_scene)"
    by (simp_all add: node_names_def node_uuids_def example_defs)
  have d: "fn_object (node_fn duck) = dependnode duck" "node_str duck = ''u1''"
    "node_cls duck = System" "dependnode duck = 1" "node_str arm = ''u4''"
    by (simp_all add: duck_def arm_def)
  have e: "om_uuid example_scene (node_fn duck) = Inr ''u1''"
    "om_isValid example_scene (dependnode duck)"
    "Node_new System (Obj 1) example_scene = Inr (Some duck)"
    "om_uuid example_scene (node_fn arm) = Inr ''u4''"
    by (simp_all add: om_uuid_def om_node_def ebind_def om_isValid_def Node_new_def resolve_def
        om_hasObj_def om_setObject_def example_defs)
  from rename_keeps_identity[of duck "''goose''" example_scene "\<lambda>s. int (length s)"] a b c d e
  have 1: "fst (Node_rename duck ''goose'' example_scene) = Inr () \<and>
   Node_get_name duck (snd (Node_rename duck ''goose'' example_scene)) = Inr ''goose'' \<and>
   om_uuid (snd (Node_rename duck ''goose'' example_scene)) (node_fn duck) = Inr ''u1'' \<and>
   om_isValid (snd (Node_rename duck ''goose'' example_scene)) (dependnode duck) \<and>
   Node_new System (Obj 1) (snd (Node_rename duck ''goose'' example_scene)) = Inr (Some duck) \<and>
   Node_hash (\<lambda>s. int (length s)) duck = 2"
    by simp
  from rename_keeps_identity[of arm "''other:hand''" example_scene "\<lambda>s. int (length s)"] e(4)
  have 2: "om_uuid (snd (Node_rename arm ''other:hand'' example_scene)) (node_fn arm) = Inr ''u4''"
    by simp
  from 1 2 a d arm_renamed show ?thesis by simp
qed


end
